theory Spec2Isabelle
  imports Complex_Main
begin

section \<open>Python exceptions and numpy arrays\<close>

text \<open>
  Exceptions are values. \<open>AssertionError\<close> is what a failed \<^verbatim>\<open>assert\<close> raises,
  \<open>KeyError\<close> what a dictionary lookup of an absent key raises, \<open>IndexError\<close> what
  an index outside an axis raises. \<open>ValueError\<close>, \<open>TypeError\<close> and
  \<open>NotImplementedError\<close> carry their message; \<open>EquistoreError\<close> is what the
  labelled-array library raises. The spec's names map onto them:
  \<open>ShapeMismatch\<close> is the failed sample-count assertion, \<open>UnsupportedChannel\<close> the
  failed coefficient lookup, \<open>ConfigMismatch\<close> the \<open>ValueError\<close> of the constructor.
\<close>

datatype error =
    AssertionError
  | KeyError
  | IndexError
  | TypeError string
  | ValueError string
  | NotImplementedError string
  | EquistoreError string

text \<open>
  A rank-3 numpy array of floats: its \<^verbatim>\<open>shape\<close> and its entries as nested lists
  (sample, component, property). The shape is kept beside the entries because an
  array with an empty axis still has a full shape. Entries are reals: the model
  describes the program on finite float64 values, up to round-off. Overflow to
  infinity and NaN are outside the model, so that no statement below covers inputs
  on which a float64 product or sum overflows; memory exhaustion is outside the
  model as well.
\<close>

record ndarray3 =
  shape0 :: nat
  shape1 :: nat
  shape2 :: nat
  vals :: "real list list list"

definition wf3 :: "ndarray3 \<Rightarrow> bool" where
  "wf3 a \<longleftrightarrow>
     length (vals a) = shape0 a \<and>
     list_all (\<lambda>s. length s = shape1 a \<and> list_all (\<lambda>r. length r = shape2 a) s) (vals a)"

text \<open>\<^verbatim>\<open>np.zeros((n, m, p))\<close>\<close>

definition zeros3 :: "nat \<Rightarrow> nat \<Rightarrow> nat \<Rightarrow> ndarray3" where
  "zeros3 n m p =
     \<lparr>shape0 = n, shape1 = m, shape2 = p, vals = replicate n (replicate m (replicate p 0))\<rparr>"

text \<open>
  The argument \<^verbatim>\<open>arr_1\<close> is a numpy array, a torch tensor, or anything else; the
  source dispatches on it with \<^verbatim>\<open>isinstance\<close> and reads \<^verbatim>\<open>arr_2\<close> through the same
  backend, so \<^verbatim>\<open>arr_2\<close> is given by its shape and entries.
\<close>

datatype array = Ndarray ndarray3 | TorchTensor ndarray3 | UnknownArray

definition UNKNOWN_ARRAY_TYPE :: string where
  "UNKNOWN_ARRAY_TYPE = ''unknown array type, only numpy arrays and torch tensors are supported''"

text \<open>
  Indexing one axis of length \<open>n\<close> with a Python integer: a negative index counts from
  the end, anything outside \<open>[-n, n)\<close> raises \<open>IndexError\<close> (here \<open>None\<close>).
\<close>

definition np_index :: "nat \<Rightarrow> int \<Rightarrow> nat option" where
  "np_index n i =
     (if 0 \<le> i \<and> i < int n then Some (nat i)
      else if - int n \<le> i \<and> i < 0 then Some (nat (i + int n))
      else None)"

text \<open>
  numpy broadcasting of two axis lengths: equal lengths, or one of them is 1;
  \<open>bidx n i\<close> is the entry of an axis of length \<open>n\<close> read at position \<open>i\<close> of the
  broadcast axis.
\<close>

definition broadcast_dim :: "nat \<Rightarrow> nat \<Rightarrow> nat option" where
  "broadcast_dim n m =
     (if n = m then Some n else if n = 1 then Some m else if m = 1 then Some n else None)"

definition bidx :: "nat \<Rightarrow> nat \<Rightarrow> nat" where
  "bidx n i = (if n = 1 then 0 else i)"

definition BROADCAST_ERROR :: string where
  "BROADCAST_ERROR = ''operands could not be broadcast together''"

definition RESHAPE_ERROR :: string where
  "RESHAPE_ERROR = ''cannot reshape array''"

definition NEGATIVE_DIMENSIONS :: string where
  "NEGATIVE_DIMENSIONS = ''negative dimensions are not allowed''"

definition UNKNOWN_DIMENSIONS :: string where
  "UNKNOWN_DIMENSIONS = ''can only specify one unknown dimension''"

definition MATMUL_ERROR :: string where
  "MATMUL_ERROR = ''matmul: mismatch in core dimension''"

text \<open>
  \<^verbatim>\<open>reshape\<close> reads the entries in C order and regroups them.
  \<open>split_rows n c xs\<close> cuts the first \<open>n\<close> consecutive pieces of length \<open>c\<close> off
  \<open>xs\<close>. With one unknown dimension (\<^verbatim>\<open>-1\<close>) numpy divides the size by the
  product of the known dimensions and raises \<open>ValueError\<close> when that product is
  zero or does not divide the size.
\<close>

primrec split_rows :: "nat \<Rightarrow> nat \<Rightarrow> 'a list \<Rightarrow> 'a list list" where
  "split_rows 0 c xs = []"
| "split_rows (Suc n) c xs = take c xs # split_rows n c (drop c xs)"

text \<open>\<^verbatim>\<open>a.reshape(-1, r, c)\<close> on the C-order entries \<open>flat\<close> of \<open>a\<close>\<close>

definition reshape_unknown_3 :: "real list \<Rightarrow> nat \<Rightarrow> nat \<Rightarrow> error + ndarray3" where
  "reshape_unknown_3 flat r c =
     (if r * c = 0 \<or> length flat mod (r * c) \<noteq> 0 then Inl (ValueError RESHAPE_ERROR)
      else
        let n = length flat div (r * c)
        in Inr \<lparr>shape0 = n, shape1 = r, shape2 = c,
                  vals = split_rows n r (split_rows (n * r) c flat)\<rparr>)"

text \<open>
  \<^verbatim>\<open>a.reshape(-1, c)\<close> for a Python integer \<open>c\<close>: the rows of the resulting
  matrix. With \<open>c = -1\<close> two dimensions are unknown, with \<open>c < -1\<close> one is
  negative; numpy raises \<open>ValueError\<close> on both.
\<close>

definition reshape_unknown_2 :: "real list \<Rightarrow> int \<Rightarrow> error + real list list" where
  "reshape_unknown_2 flat c =
     (if c = - 1 then Inl (ValueError UNKNOWN_DIMENSIONS)
      else if c < 0 then Inl (ValueError NEGATIVE_DIMENSIONS)
      else if c = 0 \<or> length flat mod nat c \<noteq> 0 then Inl (ValueError RESHAPE_ERROR)
      else Inr (split_rows (length flat div nat c) (nat c) flat))"

definition dot :: "real list \<Rightarrow> real list \<Rightarrow> real" where
  "dot xs ys = sum_list (map2 (*) xs ys)"

text \<open>
  The product of a matrix \<open>a\<close> with a matrix \<open>b\<close> of \<open>c\<close> columns is \<open>matmul2 a b c\<close>:
  each row of \<open>a\<close> against each column of \<open>b\<close>.
  \<^verbatim>\<open>a @ b\<close> for \<open>a\<close> of shape \<open>(n, r, k)\<close> and a matrix \<open>b\<close> with \<open>length b\<close> rows
  of \<open>c\<close> columns: the last axis of \<open>a\<close> must have the length of the first axis of \<open>b\<close>.
\<close>

definition matmul2 :: "real list list \<Rightarrow> real list list \<Rightarrow> nat \<Rightarrow> real list list" where
  "matmul2 a b c = map (\<lambda>row. map (\<lambda>u. dot row (map (\<lambda>r. r ! u) b)) [0..<c]) a"

definition matmul_3_2 :: "ndarray3 \<Rightarrow> real list list \<Rightarrow> nat \<Rightarrow> error + ndarray3" where
  "matmul_3_2 a b c =
     (if shape2 a \<noteq> length b then Inl (ValueError MATMUL_ERROR)
      else Inr \<lparr>shape0 = shape0 a, shape1 = shape1 a, shape2 = c,
                vals = map (\<lambda>m. matmul2 m b c) (vals a)\<rparr>)"

text \<open>\<^verbatim>\<open>a.swapaxes(1, 2)\<close> on a rank-3 array\<close>

definition swapaxes_1_2 :: "ndarray3 \<Rightarrow> ndarray3" where
  "swapaxes_1_2 a =
     \<lparr>shape0 = shape0 a, shape1 = shape2 a, shape2 = shape1 a,
      vals = map (\<lambda>s. map (\<lambda>j. map (\<lambda>i. s ! i ! j) [0..<shape1 a]) [0..<shape2 a]) (vals a)\<rparr>"

section \<open>The Clebsch-Gordan combination strategies (\<^verbatim>\<open>_dispatch.py\<close>)\<close>

text \<open>
  \<^verbatim>\<open>cg_cache.coeffs\<close> is a dictionary keyed by \<open>(l1, l2, lam)\<close>. For the sparse
  strategy an entry is itself a dictionary from \<open>(m1, m2, mu)\<close> to a coefficient, an
  association list in insertion order; for the dense strategy an entry is an array
  of shape \<open>(2 l1 + 1, 2 l2 + 1, 2 lam + 1)\<close>.
\<close>

record 'c cg_cache =
  coeffs :: "(int \<times> int \<times> int) \<rightharpoonup> 'c"

type_synonym sparse_coeffs = "((int \<times> int \<times> int) \<times> real) list"

text \<open>
  \<^verbatim>\<open>(arr_1[:, m1, :, None] * arr_2[:, m2, None, :] * c).reshape(n_i, n_p * n_q)\<close>,
  for one sample: the outer product of two property rows, flattened row-major.
\<close>

definition outer_flat :: "real list \<Rightarrow> real list \<Rightarrow> real \<Rightarrow> real list" where
  "outer_flat r1 r2 c = concat (map (\<lambda>x. map (\<lambda>y. x * y * c) r2) r1)"

text \<open>
  One pass of the loop body: \<^verbatim>\<open>arr_out[:, mu, :] += ...\<close>. The three integer
  indices are resolved as numpy does; an index outside its axis raises.
\<close>

definition sparse_accumulate ::
  "ndarray3 \<Rightarrow> ndarray3 \<Rightarrow> ndarray3 \<Rightarrow> int \<times> int \<times> int \<Rightarrow> real \<Rightarrow> error + ndarray3" where
  "sparse_accumulate arr_1 arr_2 arr_out k c =
     (case k of (m1, m2, mu) \<Rightarrow>
        (case np_index (shape1 arr_1) m1 of
           None \<Rightarrow> Inl IndexError
         | Some a \<Rightarrow>
            (case np_index (shape1 arr_2) m2 of
               None \<Rightarrow> Inl IndexError
             | Some b \<Rightarrow>
                (case np_index (shape1 arr_out) mu of
                   None \<Rightarrow> Inl IndexError
                 | Some u \<Rightarrow>
                     Inr (arr_out\<lparr>vals :=
                       map (\<lambda>i. (vals arr_out ! i)
                                 [u := map2 (+) (vals arr_out ! i ! u)
                                         (outer_flat (vals arr_1 ! i ! a) (vals arr_2 ! i ! b) c)])
                           [0..<shape0 arr_out]\<rparr>)))))"

text \<open>
  \<^verbatim>\<open>for m1, m2, mu in cg_coeffs.keys(): ... cg_coeffs[(m1, m2, mu)]\<close>: the keys in
  order, each looked up in the dictionary.
\<close>

fun sparse_loop ::
  "ndarray3 \<Rightarrow> ndarray3 \<Rightarrow> sparse_coeffs \<Rightarrow> (int \<times> int \<times> int) list \<Rightarrow> ndarray3
     \<Rightarrow> error + ndarray3" where
  "sparse_loop arr_1 arr_2 cg_coeffs [] arr_out = Inr arr_out"
| "sparse_loop arr_1 arr_2 cg_coeffs (k # ks) arr_out =
     (case map_of cg_coeffs k of
        None \<Rightarrow> Inl KeyError
      | Some c \<Rightarrow>
         (case sparse_accumulate arr_1 arr_2 arr_out k c of
            Inl e \<Rightarrow> Inl e
          | Inr arr_out' \<Rightarrow> sparse_loop arr_1 arr_2 cg_coeffs ks arr_out'))"

text \<open>
  \<^verbatim>\<open>_sparse_combine(arr_1, arr_2, lam, cg_cache, return_empty_array)\<close>. The result
  \<open>Inr None\<close> is Python's \<^verbatim>\<open>None\<close>, returned by the branch that only says
  \<^verbatim>\<open>pass\<close>. \<^verbatim>\<open>lam\<close> is a Python integer: when \<open>2 lam + 1\<close> is negative,
  \<^verbatim>\<open>np.zeros((n_i, 2 * lam + 1, n_p * n_q))\<close> raises \<open>ValueError\<close>, after the
  assertion and before \<^verbatim>\<open>return_empty_array\<close> is read or the coefficients are
  looked up.
\<close>

definition sparse_combine ::
  "array \<Rightarrow> ndarray3 \<Rightarrow> int \<Rightarrow> sparse_coeffs cg_cache \<Rightarrow> bool \<Rightarrow> error + ndarray3 option" where
  "sparse_combine arr_1 arr_2 lam cg_cache return_empty_array =
     (case arr_1 of
        Ndarray a1 \<Rightarrow>
          if shape0 a1 \<noteq> shape0 arr_2 then Inl AssertionError
          else
            let n_i = shape0 a1;
                n_p = shape2 a1;
                n_q = shape2 arr_2;
                l1 = (int (shape1 a1) - 1) div 2;
                l2 = (int (shape1 arr_2) - 1) div 2
            in if 2 * lam + 1 < 0 then Inl (ValueError NEGATIVE_DIMENSIONS)
               else
                 let arr_out = zeros3 n_i (nat (2 * lam + 1)) (n_p * n_q)
                 in if return_empty_array then Inr (Some arr_out)
                    else
                      (case coeffs cg_cache (l1, l2, lam) of
                         None \<Rightarrow> Inl KeyError
                       | Some cg_coeffs \<Rightarrow>
                          (case sparse_loop a1 arr_2 cg_coeffs (map fst cg_coeffs) arr_out of
                             Inl e \<Rightarrow> Inl e
                           | Inr out \<Rightarrow> Inr (Some out)))
      | TorchTensor t \<Rightarrow> Inr None
      | UnknownArray \<Rightarrow> Inl (TypeError UNKNOWN_ARRAY_TYPE))"

text \<open>
  The dense strategy. \<open>outer5\<close> is
  \<^verbatim>\<open>arr_1[:, None, None, :, :] * arr_2[:, :, :, None, None]\<close>, of shape
  \<open>(n, m2, q, m1, p)\<close>, where \<open>n\<close> is the broadcast sample count;
  \<open>swapaxes_1_4\<close> exchanges axes 1 and 4 of a rank-5 array whose axes 1 to 4 have
  lengths \<open>d1 d2 d3 d4\<close>. The coefficients are looked up first; a negative
  \<open>2 lam + 1\<close> is met only in \<^verbatim>\<open>cg_coeffs.reshape(-1, 2 * lam + 1)\<close>.
  The source forms all products of an entry of \<^verbatim>\<open>arr_1\<close> with an entry of
  \<^verbatim>\<open>arr_2\<close> before it applies the coefficients, zero coefficients included. On
  reals this order is immaterial; on float64 a product that overflows meets a zero
  coefficient as NaN, which the real entries of this model do not show.
\<close>

definition outer5 :: "ndarray3 \<Rightarrow> ndarray3 \<Rightarrow> nat \<Rightarrow> real list list list list list" where
  "outer5 a1 a2 n =
     map (\<lambda>i. map (\<lambda>b. map (\<lambda>q. map (\<lambda>a. map (\<lambda>p.
            vals a1 ! bidx (shape0 a1) i ! a ! p * vals a2 ! bidx (shape0 a2) i ! b ! q)
          [0..<shape2 a1]) [0..<shape1 a1]) [0..<shape2 a2]) [0..<shape1 a2]) [0..<n]"

definition swapaxes_1_4 ::
  "nat \<Rightarrow> nat \<Rightarrow> nat \<Rightarrow> nat \<Rightarrow> real list list list list list \<Rightarrow> real list list list list list" where
  "swapaxes_1_4 d1 d2 d3 d4 x =
     map (\<lambda>s. map (\<lambda>i4. map (\<lambda>i2. map (\<lambda>i3. map (\<lambda>i1. s ! i1 ! i2 ! i3 ! i4)
          [0..<d1]) [0..<d3]) [0..<d2]) [0..<d4]) x"

definition dense_combine ::
  "array \<Rightarrow> ndarray3 \<Rightarrow> int \<Rightarrow> ndarray3 cg_cache \<Rightarrow> error + ndarray3 option" where
  "dense_combine arr_1 arr_2 lam cg_cache =
     (case arr_1 of
        Ndarray a1 \<Rightarrow>
          let l1 = (int (shape1 a1) - 1) div 2;
              l2 = (int (shape1 arr_2) - 1) div 2
          in (case coeffs cg_cache (l1, l2, lam) of
                None \<Rightarrow> Inl KeyError
              | Some cg_coeffs \<Rightarrow>
                 (case broadcast_dim (shape0 a1) (shape0 arr_2) of
                    None \<Rightarrow> Inl (ValueError BROADCAST_ERROR)
                  | Some n \<Rightarrow>
                     let arr_out = outer5 a1 arr_2 n;
                         arr_out = swapaxes_1_4 (shape1 arr_2) (shape2 arr_2) (shape1 a1) (shape2 a1)
                                     arr_out
                     in (case reshape_unknown_3 (concat (concat (concat (concat arr_out))))
                                (shape2 a1 * shape2 arr_2) (shape1 a1 * shape1 arr_2) of
                           Inl e \<Rightarrow> Inl e
                         | Inr arr_out \<Rightarrow>
                            (case reshape_unknown_2 (concat (concat (vals cg_coeffs)))
                                    (2 * lam + 1) of
                               Inl e \<Rightarrow> Inl e
                             | Inr cg_matrix \<Rightarrow>
                                (case matmul_3_2 arr_out cg_matrix (nat (2 * lam + 1)) of
                                   Inl e \<Rightarrow> Inl e
                                 | Inr arr_out \<Rightarrow> Inr (Some (swapaxes_1_2 arr_out)))))))
      | TorchTensor t \<Rightarrow> Inr None
      | UnknownArray \<Rightarrow> Inl (TypeError UNKNOWN_ARRAY_TYPE))"

section \<open>Labelled blocks\<close>

text \<open>
  Modelled from the spec: the labelled-array library (\<^verbatim>\<open>Labels\<close>,
  \<^verbatim>\<open>TensorBlock\<close>, \<^verbatim>\<open>TensorMap\<close> and their methods) is not among the sources.
  Section 3 of the spec: a label set is an ordered collection of named integer
  columns; two label sets are equal when they have the same names and the same rows
  in the same order. Its length is its number of rows.
\<close>

record labels =
  names :: "string list"
  rows :: "int list list"

definition len :: "labels \<Rightarrow> nat" where
  "len l = length (rows l)"

definition Labels_empty :: "string list \<Rightarrow> labels" where
  "Labels_empty ns = \<lparr>names = ns, rows = []\<rparr>"

fun index_of :: "'a \<Rightarrow> 'a list \<Rightarrow> nat" where
  "index_of x [] = 0"
| "index_of x (y # ys) = (if x = y then 0 else Suc (index_of x ys))"

text \<open>
  Modelled from the spec: \<^verbatim>\<open>labels["name"]\<close> is one named column of the rows;
  \<open>index_of x xs\<close> is the position of the first \<open>x\<close> in \<open>xs\<close>.
\<close>

definition column :: "labels \<Rightarrow> string \<Rightarrow> error + int list" where
  "column l nm =
     (if nm \<in> set (names l) then Inr (map (\<lambda>r. r ! index_of nm (names l)) (rows l))
      else Inl (EquistoreError ''no such column''))"

text \<open>Arrays of rank 2 and rank 4, as \<open>ndarray3\<close>.\<close>

record ndarray2 =
  nrows :: nat
  ncols :: nat
  vals2 :: "real list list"

record ndarray4 =
  dim0 :: nat
  dim1 :: nat
  dim2 :: nat
  dim3 :: nat
  vals4 :: "real list list list list"

definition wf2 :: "ndarray2 \<Rightarrow> bool" where
  "wf2 a \<longleftrightarrow> length (vals2 a) = nrows a \<and> list_all (\<lambda>r. length r = ncols a) (vals2 a)"

definition wf4 :: "ndarray4 \<Rightarrow> bool" where
  "wf4 a \<longleftrightarrow>
     length (vals4 a) = dim0 a \<and>
     list_all (\<lambda>s. length s = dim1 a \<and>
       list_all (\<lambda>m. length m = dim2 a \<and> list_all (\<lambda>r. length r = dim3 a) m) s) (vals4 a)"

text \<open>
  Modelled from the spec: section 3 describes a \<^verbatim>\<open>TensorBlock\<close> as values, one
  label set per axis, and gradients by parameter name; a gradient is again values
  and label sets. A block of a spherical expansion
  has values of rank 3 (sample, component, property) and gradients of rank 4
  (gradient sample, direction, component, property); a block of the power spectrum
  has no component axis, so its values have rank 2 and its gradients rank 3.
\<close>

record 'v block_data =
  values' :: 'v
  samples :: labels
  components :: "labels list"
  properties :: labels

record ('v, 'g) tensor_block = "'v block_data" +
  gradients :: "(string \<times> 'g block_data) list"

type_synonym expansion_block = "(ndarray3, ndarray4) tensor_block"
type_synonym invariant_block = "(ndarray2, ndarray3) tensor_block"

text \<open>
  Modelled from the spec: the constructor \<^verbatim>\<open>TensorBlock(values, samples, components,
  properties)\<close> enforces the invariant of section 3, that the array shape along
  each axis equals the row count of the label set of that axis, and raises the
  error of the library otherwise. \<open>TensorBlock sh\<close> is the constructor for arrays
  whose shape is read by \<open>sh\<close>; a block built by it has no gradients yet.
\<close>

definition shape_2 :: "ndarray2 \<Rightarrow> nat list" where
  "shape_2 a = [nrows a, ncols a]"

definition shape_3 :: "ndarray3 \<Rightarrow> nat list" where
  "shape_3 a = [shape0 a, shape1 a, shape2 a]"

definition SHAPE_MISMATCH :: string where
  "SHAPE_MISMATCH = ''the array shape does not match the number of labels''"

definition TensorBlock ::
  "('v \<Rightarrow> nat list) \<Rightarrow> 'v \<Rightarrow> labels \<Rightarrow> labels list \<Rightarrow> labels \<Rightarrow> error + 'v block_data" where
  "TensorBlock sh v s cs p =
     (if sh v = len s # map len cs @ [len p]
      then Inr \<lparr>values' = v, samples = s, components = cs, properties = p\<rparr>
      else Inl (EquistoreError SHAPE_MISMATCH))"

definition without_gradients :: "'v block_data \<Rightarrow> ('v, 'g) tensor_block" where
  "without_gradients b =
     \<lparr>values' = values' b, samples = samples b, components = components b,
      properties = properties b, gradients = []\<rparr>"

definition gradients_list :: "('v, 'g) tensor_block \<Rightarrow> string list" where
  "gradients_list b = map fst (gradients b)"

definition gradient :: "('v, 'g) tensor_block \<Rightarrow> string \<Rightarrow> error + 'g block_data" where
  "gradient b parameter =
     (case map_of (gradients b) parameter of
        None \<Rightarrow> Inl (EquistoreError ''no such gradient'')
      | Some g \<Rightarrow> Inr g)"

definition add_gradient ::
  "('v, 'g) tensor_block \<Rightarrow> string \<Rightarrow> 'g block_data \<Rightarrow> error + ('v, 'g) tensor_block" where
  "add_gradient b parameter g =
     (if parameter \<in> set (gradients_list b) then Inl (EquistoreError ''gradient already exists'')
      else Inr (b\<lparr>gradients := gradients b @ [(parameter, g)]\<rparr>))"

text \<open>
  Modelled from the spec: a \<^verbatim>\<open>TensorMap\<close> is a label set of keys and one block
  per key row; its property names are those of its blocks.
\<close>

record 'b tensor_map =
  keys :: labels
  blocks :: "'b list"

type_synonym expansion_map = "expansion_block tensor_map"
type_synonym invariant_map = "invariant_block tensor_map"

definition property_names :: "('v, 'g) tensor_block tensor_map \<Rightarrow> string list" where
  "property_names tm = (case blocks tm of [] \<Rightarrow> [] | b # bs \<Rightarrow> names (properties b))"

text \<open>
  Modelled from the spec: \<^verbatim>\<open>tensor_map.blocks(name_1=v_1, ...)\<close> gives the blocks
  whose key has the given entries (section 4.4, step 4).
\<close>

definition blocks_selection :: "'b tensor_map \<Rightarrow> (string \<times> int) list \<Rightarrow> error + 'b list" where
  "blocks_selection tm selection =
     (if list_all (\<lambda>(nm, v). nm \<in> set (names (keys tm))) selection
      then Inr (map snd (filter
             (\<lambda>(k, b). list_all (\<lambda>(nm, v). k ! index_of nm (names (keys tm)) = v) selection)
             (zip (rows (keys tm)) (blocks tm))))
      else Inl (EquistoreError ''no such key column''))"

text \<open>
  Modelled from the spec: \<^verbatim>\<open>Labels.union_and_mapping\<close> belongs to the labelled-array
  library and is not among the sources. Section 4.3 of the spec: the union holds the
  rows of the first set in their order, then the rows of the second set that are not
  yet present, in their order; the two index arrays give, for each row of each
  input, its position in the union.
\<close>

definition union_and_mapping :: "labels \<Rightarrow> labels \<Rightarrow> labels \<times> nat list \<times> nat list" where
  "union_and_mapping s1 s2 =
     (let u = rev (remdups (rev (rows s1 @ rows s2)))
      in (\<lparr>names = names s1, rows = u\<rparr>,
          map (\<lambda>r. index_of r u) (rows s1),
          map (\<lambda>r. index_of r u) (rows s2)))"

section \<open>numpy operations of the power spectrum\<close>

definition bind :: "error + 'a \<Rightarrow> ('a \<Rightarrow> error + 'b) \<Rightarrow> error + 'b" where
  "bind m f = (case m of Inl e \<Rightarrow> Inl e | Inr x \<Rightarrow> f x)"

definition scale3 :: "real \<Rightarrow> ndarray3 \<Rightarrow> ndarray3" where
  "scale3 f a = a\<lparr>vals := map (map (map (\<lambda>x. f * x))) (vals a)\<rparr>"

definition scale4 :: "real \<Rightarrow> ndarray4 \<Rightarrow> ndarray4" where
  "scale4 f a = a\<lparr>vals4 := map (map (map (map (\<lambda>x. f * x)))) (vals4 a)\<rparr>"

text \<open>
  \<^verbatim>\<open>np.matmul(a, b)\<close> for \<open>a\<close> of shape \<open>(n1, r, k)\<close> and \<open>b\<close> of shape \<open>(n2, k, c)\<close>:
  the batch axis is broadcast.
\<close>

definition matmul_3_3 :: "ndarray3 \<Rightarrow> ndarray3 \<Rightarrow> error + ndarray3" where
  "matmul_3_3 a b =
     (if shape2 a \<noteq> shape1 b then Inl (ValueError MATMUL_ERROR)
      else
        (case broadcast_dim (shape0 a) (shape0 b) of
           None \<Rightarrow> Inl (ValueError BROADCAST_ERROR)
         | Some n \<Rightarrow>
            Inr \<lparr>shape0 = n, shape1 = shape1 a, shape2 = shape2 b,
                 vals = map (\<lambda>i. matmul2 (vals a ! bidx (shape0 a) i)
                                   (vals b ! bidx (shape0 b) i) (shape2 b)) [0..<n]\<rparr>))"

text \<open>\<^verbatim>\<open>data.reshape(data.shape[0], -1)\<close>\<close>

definition reshape_3_to_2 :: "ndarray3 \<Rightarrow> error + ndarray2" where
  "reshape_3_to_2 a =
     (let flat = concat (concat (vals a)); n = shape0 a
      in if n = 0 \<or> length flat mod n \<noteq> 0 then Inl (ValueError RESHAPE_ERROR)
         else Inr \<lparr>nrows = n, ncols = length flat div n,
                   vals2 = split_rows n (length flat div n) flat\<rparr>)"

text \<open>The same operations on gradients, of rank 4.\<close>

definition swapaxes_2_3 :: "ndarray4 \<Rightarrow> ndarray4" where
  "swapaxes_2_3 a =
     \<lparr>dim0 = dim0 a, dim1 = dim1 a, dim2 = dim3 a, dim3 = dim2 a,
      vals4 = map (map (\<lambda>m. map (\<lambda>j. map (\<lambda>i. m ! i ! j) [0..<dim2 a]) [0..<dim3 a])) (vals4 a)\<rparr>"

text \<open>
  \<^verbatim>\<open>a[idx]\<close> for an integer array \<open>idx\<close> along the first axis of length \<open>n\<close>, and
  \<^verbatim>\<open>a[idx, np.newaxis]\<close>, which adds an axis of length 1 after it.
\<close>

fun np_take :: "'a list \<Rightarrow> nat \<Rightarrow> int list \<Rightarrow> error + 'a list" where
  "np_take xs n [] = Inr []"
| "np_take xs n (i # idx) =
     (case np_index n i of
        None \<Rightarrow> Inl IndexError
      | Some j \<Rightarrow>
         (case np_take xs n idx of Inl e \<Rightarrow> Inl e | Inr ys \<Rightarrow> Inr (xs ! j # ys)))"

definition take_newaxis :: "ndarray3 \<Rightarrow> int list \<Rightarrow> error + ndarray4" where
  "take_newaxis a idx =
     (case np_take (vals a) (shape0 a) idx of
        Inl e \<Rightarrow> Inl e
      | Inr taken \<Rightarrow>
         Inr \<lparr>dim0 = length idx, dim1 = 1, dim2 = shape1 a, dim3 = shape2 a,
              vals4 = map (\<lambda>m. [m]) taken\<rparr>)"

definition matmul_4_4 :: "ndarray4 \<Rightarrow> ndarray4 \<Rightarrow> error + ndarray4" where
  "matmul_4_4 a b =
     (if dim3 a \<noteq> dim2 b then Inl (ValueError MATMUL_ERROR)
      else
        (case broadcast_dim (dim0 a) (dim0 b) of
           None \<Rightarrow> Inl (ValueError BROADCAST_ERROR)
         | Some g \<Rightarrow>
            (case broadcast_dim (dim1 a) (dim1 b) of
               None \<Rightarrow> Inl (ValueError BROADCAST_ERROR)
             | Some x \<Rightarrow>
                Inr \<lparr>dim0 = g, dim1 = x, dim2 = dim2 a, dim3 = dim3 b,
                     vals4 = map (\<lambda>j. map (\<lambda>d.
                               matmul2 (vals4 a ! bidx (dim0 a) j ! bidx (dim1 a) d)
                                       (vals4 b ! bidx (dim0 b) j ! bidx (dim1 b) d) (dim3 b))
                             [0..<x]) [0..<g]\<rparr>)))"

text \<open>\<^verbatim>\<open>a.reshape(n, 3, -1)\<close>\<close>

definition reshape_4_to_3 :: "ndarray4 \<Rightarrow> nat \<Rightarrow> error + ndarray3" where
  "reshape_4_to_3 a n =
     (let flat = concat (concat (concat (vals4 a)))
      in if n * 3 = 0 \<or> length flat mod (n * 3) \<noteq> 0 then Inl (ValueError RESHAPE_ERROR)
         else Inr \<lparr>shape0 = n, shape1 = 3, shape2 = length flat div (n * 3),
                   vals = split_rows n 3 (split_rows (n * 3) (length flat div (n * 3)) flat)\<rparr>)"

text \<open>
  \<^verbatim>\<open>a[idx] += r\<close> with an index array: numpy reads \<^verbatim>\<open>a[idx]\<close>, adds \<open>r\<close>
  (broadcast to the shape of \<^verbatim>\<open>a[idx]\<close>) and writes the rows back one index at a
  time, so that for a repeated index the last write stays.
\<close>

definition fits :: "nat \<Rightarrow> nat \<Rightarrow> bool" where
  "fits d target \<longleftrightarrow> d = target \<or> d = 1"

definition scatter :: "'a list \<Rightarrow> nat list \<Rightarrow> 'a list \<Rightarrow> 'a list" where
  "scatter xs idx ys = fold (\<lambda>(i, y) acc. acc[i := y]) (zip idx ys) xs"

definition fancy_iadd :: "ndarray3 \<Rightarrow> nat list \<Rightarrow> ndarray3 \<Rightarrow> error + ndarray3" where
  "fancy_iadd a idx r =
     (if \<not> list_all (\<lambda>i. i < shape0 a) idx then Inl IndexError
      else if \<not> (fits (shape0 r) (length idx) \<and> fits (shape1 r) (shape1 a)
                  \<and> fits (shape2 r) (shape2 a))
      then Inl (ValueError BROADCAST_ERROR)
      else Inr (a\<lparr>vals := scatter (vals a) idx
                  (map (\<lambda>j. map (\<lambda>x. map (\<lambda>c.
                          vals a ! (idx ! j) ! x ! c
                          + vals r ! bidx (shape0 r) j ! bidx (shape1 r) x ! bidx (shape2 r) c)
                        [0..<shape2 a]) [0..<shape1 a]) [0..<length idx])\<rparr>))"

section \<open>The power spectrum (\<^verbatim>\<open>power_spectrum.py\<close>)\<close>

text \<open>
  A calculator, as far as \<^verbatim>\<open>PowerSpectrum\<close> reads it: its \<^verbatim>\<open>c_name\<close>, its
  \<^verbatim>\<open>parameters\<close> (the dictionary that \<^verbatim>\<open>json.loads\<close> gives) and its
  \<^verbatim>\<open>compute\<close> method, an external computation of a spherical expansion.
\<close>

record ('v, 's) calculator =
  c_name :: string
  parameters :: "string \<rightharpoonup> 'v"
  calc_compute :: "'s \<Rightarrow> string list option \<Rightarrow> bool \<Rightarrow> error + expansion_map"

record ('v, 's) power_spectrum =
  calculator_1 :: "('v, 's) calculator"
  calculator_2 :: "('v, 's) calculator option"

definition supported_calculators :: "string list" where
  "supported_calculators = [''lode_spherical_expansion'', ''spherical_expansion'']"

definition UNSUPPORTED_1 :: string where
  "UNSUPPORTED_1 =
     ''Only lode_spherical_expansion,spherical_expansion are supported for calculator_1!''"

definition UNSUPPORTED_2 :: string where
  "UNSUPPORTED_2 =
     ''Only lode_spherical_expansion,spherical_expansion are supported for calculator_2!''"

definition MAX_ANGULAR_MISMATCH :: string where
  "MAX_ANGULAR_MISMATCH =
     CHR 0x27 # ''max_angular'' @ CHR 0x27 # '' of both calculators must be the same!''"

text \<open>\<^verbatim>\<open>PowerSpectrum.__init__(calculator_1, calculator_2)\<close>\<close>

definition init ::
  "('v, 's) calculator \<Rightarrow> ('v, 's) calculator option \<Rightarrow> error + ('v, 's) power_spectrum" where
  "init calculator_1' calculator_2' =
     (if c_name calculator_1' \<notin> set supported_calculators then Inl (ValueError UNSUPPORTED_1)
      else
        (case calculator_2' of
           None \<Rightarrow> Inr \<lparr>calculator_1 = calculator_1', calculator_2 = calculator_2'\<rparr>
         | Some c2 \<Rightarrow>
            if c_name c2 \<notin> set supported_calculators then Inl (ValueError UNSUPPORTED_2)
            else
              (case parameters calculator_1' ''max_angular'' of
                 None \<Rightarrow> Inl KeyError
               | Some max_angular_1 \<Rightarrow>
                  (case parameters c2 ''max_angular'' of
                     None \<Rightarrow> Inl KeyError
                   | Some max_angular_2 \<Rightarrow>
                      if max_angular_1 \<noteq> max_angular_2
                      then Inl (ValueError MAX_ANGULAR_MISMATCH)
                      else Inr \<lparr>calculator_1 = calculator_1', calculator_2 = calculator_2'\<rparr>))))"

text \<open>
  \<^verbatim>\<open>_positions_gradients(new_block, block_1, block_2, factor)\<close>.
  \<open>gradient_samples_and_values\<close> is the \<^verbatim>\<open>if ... else\<close> of the function: the
  labels \<^verbatim>\<open>gradients_samples\<close> and the array \<^verbatim>\<open>gradient_values\<close> that it
  leaves behind. With an empty side these are \<^verbatim>\<open>Labels.empty(...)\<close> and
  \<^verbatim>\<open>np.array([]).reshape(0, 1, len(new_block.properties))\<close>, of shape
  \<open>(0, 1, P)\<close>.
\<close>

definition gradient_samples_and_values ::
  "invariant_block \<Rightarrow> expansion_block \<Rightarrow> expansion_block \<Rightarrow> ndarray4 block_data
     \<Rightarrow> ndarray4 block_data \<Rightarrow> real \<Rightarrow> error + labels \<times> ndarray3" where
  "gradient_samples_and_values new_block block_1 block_2 gradient_1 gradient_2 factor =
     (if len (samples gradient_1) = 0 \<or> len (samples gradient_2) = 0
      then Inr (Labels_empty [''sample'', ''structure'', ''atom''],
                \<lparr>shape0 = 0, shape1 = 1, shape2 = len (properties new_block), vals = []\<rparr>)
      else
        (case union_and_mapping (samples gradient_1) (samples gradient_2) of
           (gradients_samples, grad1_sample_idxs, grad2_sample_idxs) \<Rightarrow>
             let gradient_values =
                   zeros3 (length (rows gradients_samples)) 3 (len (properties new_block))
             in
             bind (column (samples gradient_1) ''sample'') (\<lambda>sample_1.
             bind (take_newaxis (values' block_2) sample_1) (\<lambda>values_2.
             bind (matmul_4_4 (swapaxes_2_3 (values' gradient_1)) values_2) (\<lambda>product_1.
             bind (reshape_4_to_3 (scale4 factor product_1)
                     (length (rows (samples gradient_1)))) (\<lambda>gradient_1_values.
             bind (fancy_iadd gradient_values grad1_sample_idxs gradient_1_values)
               (\<lambda>gradient_values.
             bind (column (samples gradient_2) ''sample'') (\<lambda>sample_2.
             bind (take_newaxis (values' block_1) sample_2) (\<lambda>values_1.
             bind (matmul_4_4 (swapaxes_2_3 values_1) (values' gradient_2)) (\<lambda>product_2.
             bind (reshape_4_to_3 (scale4 factor product_2)
                     (length (rows (samples gradient_2)))) (\<lambda>gradient_values_2.
             bind (fancy_iadd gradient_values grad2_sample_idxs gradient_values_2)
               (\<lambda>gradient_values.
             Inr (gradients_samples, gradient_values)))))))))))))"

text \<open>
  The block \<^verbatim>\<open>new_block\<close> is mutated by the source; here the block with the
  gradient attached is returned. The gradient is built by the constructor
  \<^verbatim>\<open>TensorBlock\<close> from the two arrays above, the first component label set of
  \<^verbatim>\<open>gradient_1\<close> and the properties of \<^verbatim>\<open>new_block\<close>.
\<close>

definition positions_gradients ::
  "invariant_block \<Rightarrow> expansion_block \<Rightarrow> expansion_block \<Rightarrow> real \<Rightarrow> error + invariant_block" where
  "positions_gradients new_block block_1 block_2 factor =
     bind (gradient block_1 ''positions'') (\<lambda>gradient_1.
     bind (gradient block_2 ''positions'') (\<lambda>gradient_2.
     bind (gradient_samples_and_values new_block block_1 block_2 gradient_1 gradient_2 factor)
       (\<lambda>(gradients_samples, gradient_values).
          (case components gradient_1 of
             [] \<Rightarrow> Inl IndexError
           | c # cs \<Rightarrow>
              bind (TensorBlock shape_3 gradient_values gradients_samples [c]
                      (properties new_block))
                (\<lambda>gradient'. add_gradient new_block ''positions'' gradient')))))"

text \<open>
  The body of the inner loop of \<^verbatim>\<open>compute\<close>, for one matched pair of blocks:
  the property labels of the new block, its values, and its gradients.
\<close>

definition block_properties :: "labels \<Rightarrow> labels \<Rightarrow> labels" where
  "block_properties p1 p2 =
     \<lparr>names = [''species_neighbor_1'', ''n1'', ''species_neighbor_2'', ''n2''],
      rows = concat (map (\<lambda>properties_1. map (\<lambda>properties_2. properties_1 @ properties_2)
                                            (rows p2)) (rows p1))\<rparr>"

fun gradients_loop ::
  "string list \<Rightarrow> invariant_block \<Rightarrow> expansion_block \<Rightarrow> expansion_block \<Rightarrow> real
     \<Rightarrow> error + invariant_block" where
  "gradients_loop [] new_block block_1 block_2 factor = Inr new_block"
| "gradients_loop (parameter # ps) new_block block_1 block_2 factor =
     (if parameter = ''positions''
      then bind (positions_gradients new_block block_1 block_2 factor)
             (\<lambda>new_block'. gradients_loop ps new_block' block_1 block_2 factor)
      else gradients_loop ps new_block block_1 block_2 factor)"

definition compute_block ::
  "real \<Rightarrow> expansion_block \<Rightarrow> expansion_block \<Rightarrow> error + invariant_block" where
  "compute_block factor block_1 block_2 =
     (if samples block_1 \<noteq> samples block_2 then Inl AssertionError
      else
        let new_properties = block_properties (properties block_1) (properties block_2)
        in
        bind (matmul_3_3 (swapaxes_1_2 (values' block_1)) (values' block_2)) (\<lambda>product.
        let data = scale3 factor product
        in
        bind (reshape_3_to_2 data) (\<lambda>flat_values.
        bind (TensorBlock shape_2 flat_values (samples block_1) [] new_properties) (\<lambda>b.
        let new_block = without_gradients b
        in gradients_loop (gradients_list block_1) new_block block_1 block_2 factor))))"

text \<open>
  \<^verbatim>\<open>factor = 1 / sqrt(2 * ell + 1)\<close>; \<^verbatim>\<open>math.sqrt\<close> raises on a negative number.
\<close>

definition py_factor :: "int \<Rightarrow> error + real" where
  "py_factor ell =
     (if 2 * ell + 1 < 0 then Inl (ValueError ''math domain error'')
      else Inr (1 / sqrt (real_of_int (2 * ell + 1))))"

fun blocks_2_loop ::
  "real \<Rightarrow> int list \<Rightarrow> expansion_block \<Rightarrow> expansion_block list
     \<Rightarrow> int list list \<times> invariant_block list
     \<Rightarrow> error + int list list \<times> invariant_block list" where
  "blocks_2_loop factor key block_1 [] acc = Inr acc"
| "blocks_2_loop factor key block_1 (block_2 # blocks_2) acc =
     bind (compute_block factor block_1 block_2) (\<lambda>new_block.
       blocks_2_loop factor key block_1 blocks_2 (fst acc @ [key], snd acc @ [new_block]))"

fun items_loop ::
  "(int list \<times> expansion_block) list \<Rightarrow> expansion_map
     \<Rightarrow> int list list \<times> invariant_block list
     \<Rightarrow> error + int list list \<times> invariant_block list" where
  "items_loop [] spherical_expansion_2 acc = Inr acc"
| "items_loop ((key, block_1) # items) spherical_expansion_2 acc =
     (case key of
        [ell, species_center] \<Rightarrow>
          bind (py_factor ell) (\<lambda>factor.
          bind (blocks_selection spherical_expansion_2
                  [(''spherical_harmonics_l'', ell), (''species_center'', species_center)])
            (\<lambda>blocks_2.
          bind (blocks_2_loop factor [ell, species_center] block_1 blocks_2 acc) (\<lambda>acc'.
          items_loop items spherical_expansion_2 acc')))
      | _ \<Rightarrow> Inl (ValueError ''wrong number of values to unpack''))"

text \<open>
  The operations of the labelled-array library that \<^verbatim>\<open>compute\<close> delegates to:
  \<^verbatim>\<open>keys_to_properties(keys_to_move)\<close> on a spherical expansion, and
  \<^verbatim>\<open>TensorMap(keys, blocks).keys_to_properties("l")\<close> on the result.
\<close>

record library =
  keys_to_properties :: "expansion_map \<Rightarrow> labels \<Rightarrow> error + expansion_map"
  keys_to_properties_l :: "invariant_map \<Rightarrow> error + invariant_map"

definition expected_key_names :: "string list" where
  "expected_key_names = [''spherical_harmonics_l'', ''species_center'', ''species_neighbor'']"

definition GRADIENTS_ERROR :: string where
  "GRADIENTS_ERROR = ''PowerSpectrum currently only supports gradients w.r.t. to positions''"

text \<open>
  The checks on one spherical expansion and the move of its
  \<^verbatim>\<open>species_neighbor\<close> keys (\<^verbatim>\<open>np.unique\<close> sorts the distinct entries).
\<close>

definition move_species_neighbor :: "library \<Rightarrow> expansion_map \<Rightarrow> error + expansion_map" where
  "move_species_neighbor lib spherical_expansion =
     (if names (keys spherical_expansion) \<noteq> expected_key_names then Inl AssertionError
      else if property_names spherical_expansion \<noteq> [''n''] then Inl AssertionError
      else
        bind (column (keys spherical_expansion) ''species_neighbor'') (\<lambda>species_neighbor.
        let keys_to_move =
              \<lparr>names = [''species_neighbor''],
               rows = map (\<lambda>v. [v]) (sort (remdups species_neighbor))\<rparr>
        in keys_to_properties lib spherical_expansion keys_to_move))"

text \<open>\<^verbatim>\<open>PowerSpectrum.compute(systems, gradients=..., use_native_system=...)\<close>\<close>

definition compute ::
  "('v, 's) power_spectrum \<Rightarrow> library \<Rightarrow> 's \<Rightarrow> string list option \<Rightarrow> bool
     \<Rightarrow> error + invariant_map" where
  "compute self lib systems gradients' use_native_system =
     (if (case gradients' of None \<Rightarrow> False
          | Some ps \<Rightarrow> list_ex (\<lambda>parameter. parameter \<noteq> ''positions'') ps)
      then Inl (NotImplementedError GRADIENTS_ERROR)
      else
        bind (calc_compute (calculator_1 self) systems gradients' use_native_system)
          (\<lambda>spherical_expansion_1.
        bind (move_species_neighbor lib spherical_expansion_1) (\<lambda>spherical_expansion_1.
        bind
          (case calculator_2 self of
             None \<Rightarrow> Inr spherical_expansion_1
           | Some c2 \<Rightarrow>
              bind (calc_compute c2 systems gradients' use_native_system)
                (\<lambda>spherical_expansion_2. move_species_neighbor lib spherical_expansion_2))
          (\<lambda>spherical_expansion_2.
        bind (items_loop (zip (rows (keys spherical_expansion_1)) (blocks spherical_expansion_1))
                spherical_expansion_2 ([], []))
          (\<lambda>(keys', blocks').
        keys_to_properties_l lib
          \<lparr>keys = \<lparr>names = [''l'', ''species_center''], rows = keys'\<rparr>,
           blocks = blocks'\<rparr>)))))"

section \<open>Notions used to state the properties\<close>

text \<open>
  \<open>flat2 f P Q\<close> is the row-major flattening of the table \<open>f p q\<close>, \<open>p < P\<close>,
  \<open>q < Q\<close>: entry \<open>p * Q + q\<close> is \<open>f p q\<close>. \<open>tab3 f n L P Q\<close> is the array of
  shape \<open>(n, L, P * Q)\<close> whose entry \<open>(i, u, p * Q + q)\<close> is \<open>f i u p q\<close>.
  \<open>sparse_term\<close> is what one key of the sparse dictionary adds to an entry of the
  output, \<open>dense_term\<close> the double sum over \<open>(m1, m2)\<close> of the dense contraction, and
  \<open>pair_row\<close> one row of the reshaped outer product of the dense strategy.
  \<open>key_in_range\<close> says that a key \<open>(m1, m2, mu)\<close> indexes inside the three component
  axes.
\<close>

definition flat2 :: "(nat \<Rightarrow> nat \<Rightarrow> 'a) \<Rightarrow> nat \<Rightarrow> nat \<Rightarrow> 'a list" where
  "flat2 f P Q = concat (map (\<lambda>p. map (\<lambda>q. f p q) [0..<Q]) [0..<P])"

definition tab3 :: "(nat \<Rightarrow> nat \<Rightarrow> nat \<Rightarrow> nat \<Rightarrow> real) \<Rightarrow> nat \<Rightarrow> nat \<Rightarrow> nat \<Rightarrow> nat \<Rightarrow> real list list list" where
  "tab3 f n L P Q = map (\<lambda>i. map (\<lambda>u. flat2 (f i u) P Q) [0..<L]) [0..<n]"

definition sparse_term :: "ndarray3 \<Rightarrow> ndarray3 \<Rightarrow> sparse_coeffs \<Rightarrow> int \<times> int \<times> int \<Rightarrow> nat \<Rightarrow> nat \<Rightarrow> nat \<Rightarrow> nat \<Rightarrow> real" where
  "sparse_term a1 a2 cg k i u p q =
     (case k of (m1, m2, mu) \<Rightarrow>
        if u = nat mu
        then vals a1 ! i ! nat m1 ! p * vals a2 ! i ! nat m2 ! q * (case map_of cg k of None \<Rightarrow> 0 | Some c \<Rightarrow> c)
        else 0)"

definition key_in_range :: "nat \<Rightarrow> nat \<Rightarrow> nat \<Rightarrow> int \<times> int \<times> int \<Rightarrow> bool" where
  "key_in_range M1 M2 L k =
     (case k of (m1, m2, mu) \<Rightarrow> 0 \<le> m1 \<and> m1 < int M1 \<and> 0 \<le> m2 \<and> m2 < int M2 \<and> 0 \<le> mu \<and> mu < int L)"

definition pair_row :: "ndarray3 \<Rightarrow> ndarray3 \<Rightarrow> nat \<Rightarrow> nat \<Rightarrow> nat \<Rightarrow> real list" where
  "pair_row a1 a2 i p q = flat2 (\<lambda>a b. vals a1 ! i ! a ! p * vals a2 ! i ! b ! q) (shape1 a1) (shape1 a2)"

definition dense_term :: "ndarray3 \<Rightarrow> ndarray3 \<Rightarrow> ndarray3 \<Rightarrow> nat \<Rightarrow> nat \<Rightarrow> nat \<Rightarrow> nat \<Rightarrow> real" where
  "dense_term a1 a2 cg i u p q =
     sum_list (map (\<lambda>a. sum_list (map (\<lambda>b.
         vals a1 ! i ! a ! p * vals a2 ! i ! b ! q * vals cg ! a ! b ! u) [0..<shape1 a2])) [0..<shape1 a1])"

text \<open>
  Modelled from the spec: the class that builds \<^verbatim>\<open>cg_cache\<close> is not among the
  sources. Sections 3 and 8 of the spec (coefficient table consistency): the keys
  of the sparse dictionary are distinct index triples of the dense array, every
  value of the dictionary equals the entry of the array at its key, and an entry
  whose key is absent from the dictionary is zero.
\<close>

definition cg_consistent :: "sparse_coeffs \<Rightarrow> ndarray3 \<Rightarrow> bool" where
  "cg_consistent sp dn \<longleftrightarrow>
     wf3 dn \<and> distinct (map fst sp) \<and>
     list_all (key_in_range (shape0 dn) (shape1 dn) (shape2 dn)) (map fst sp) \<and>
     list_all (\<lambda>a. list_all (\<lambda>b. list_all (\<lambda>u.
         vals dn ! a ! b ! u = (case map_of sp (int a, int b, int u) of None \<Rightarrow> 0 | Some c \<Rightarrow> c))
       [0..<shape2 dn]) [0..<shape1 dn]) [0..<shape0 dn]"

text \<open>Concrete inputs: two samples, \<open>l1 = l2 = lam = 0\<close>.\<close>

definition ex_arr_1 :: ndarray3 where
  "ex_arr_1 = \<lparr>shape0 = 2, shape1 = 1, shape2 = 2, vals = [[[1, 2]], [[3, 4]]]\<rparr>"

definition ex_arr_2 :: ndarray3 where
  "ex_arr_2 = \<lparr>shape0 = 2, shape1 = 1, shape2 = 1, vals = [[[5]], [[7]]]\<rparr>"

definition ex_sparse_coeffs :: sparse_coeffs where
  "ex_sparse_coeffs = [((0, 0, 0), 2)]"

definition ex_dense_coeffs :: ndarray3 where
  "ex_dense_coeffs = \<lparr>shape0 = 1, shape1 = 1, shape2 = 1, vals = [[[2]]]\<rparr>"

definition ex_sparse_cache :: "sparse_coeffs cg_cache" where
  "ex_sparse_cache = \<lparr>coeffs = [(0, 0, 0) \<mapsto> ex_sparse_coeffs]\<rparr>"

definition ex_dense_cache :: "ndarray3 cg_cache" where
  "ex_dense_cache = \<lparr>coeffs = [(0, 0, 0) \<mapsto> ex_dense_coeffs]\<rparr>"

definition ex_no_props :: ndarray3 where
  "ex_no_props = \<lparr>shape0 = 2, shape1 = 1, shape2 = 0, vals = [[[]], [[]]]\<rparr>"

definition ex_one_sample :: ndarray3 where
  "ex_one_sample = \<lparr>shape0 = 1, shape1 = 1, shape2 = 1, vals = [[[2]]]\<rparr>"

definition has_shape :: "ndarray3 \<Rightarrow> nat \<Rightarrow> nat \<Rightarrow> nat \<Rightarrow> bool" where
  "has_shape a n m p \<longleftrightarrow> wf3 a \<and> shape0 a = n \<and> shape1 a = m \<and> shape2 a = p"

text \<open>
  A block of a spherical expansion is well formed when its values are a proper
  array with one row per sample label and one column per property label.
  \<open>invariant_entry\<close> is the contraction over the component axis that the power
  spectrum computes for one sample and one pair of properties.
\<close>

definition wf_block :: "expansion_block \<Rightarrow> bool" where
  "wf_block b \<longleftrightarrow>
     wf3 (values' b) \<and> shape0 (values' b) = len (samples b) \<and>
     shape2 (values' b) = len (properties b)"

definition invariant_entry :: "real \<Rightarrow> ndarray3 \<Rightarrow> ndarray3 \<Rightarrow> nat \<Rightarrow> nat \<Rightarrow> nat \<Rightarrow> real" where
  "invariant_entry factor v1 v2 i p q =
     factor * (\<Sum>m<shape1 v1. vals v1 ! i ! m ! p * vals v2 ! i ! m ! q)"

text \<open>
  Concrete inputs: two spherical-expansion blocks for \<open>l = 0\<close> over the same two
  samples, and two calculators.
\<close>

definition ex_run :: "unit \<Rightarrow> string list option \<Rightarrow> bool \<Rightarrow> error + expansion_map" where
  "ex_run systems gradients' use_native_system =
     Inr \<lparr>keys = \<lparr>names = expected_key_names, rows = []\<rparr>, blocks = []\<rparr>"

definition ex_calculator :: "string \<Rightarrow> int \<Rightarrow> (int, unit) calculator" where
  "ex_calculator name max_angular =
     \<lparr>c_name = name, parameters = [''max_angular'' \<mapsto> max_angular], calc_compute = ex_run\<rparr>"

definition ex_samples :: labels where
  "ex_samples = \<lparr>names = [''structure'', ''center''], rows = [[0, 0], [0, 1]]\<rparr>"

definition ex_components :: "labels list" where
  "ex_components = [\<lparr>names = [''spherical_harmonics_m''], rows = [[0]]\<rparr>]"

definition ex_block_1 :: expansion_block where
  "ex_block_1 =
     \<lparr>values' = ex_arr_1, samples = ex_samples, components = ex_components,
      properties = \<lparr>names = [''species_neighbor'', ''n''], rows = [[1, 0], [1, 1]]\<rparr>,
      gradients = []\<rparr>"

definition ex_block_2 :: expansion_block where
  "ex_block_2 =
     \<lparr>values' = ex_arr_2, samples = ex_samples, components = ex_components,
      properties = \<lparr>names = [''species_neighbor'', ''n''], rows = [[8, 0]]\<rparr>,
      gradients = []\<rparr>"

definition ex_new_block :: invariant_block where
  "ex_new_block =
     \<lparr>values' = \<lparr>nrows = 2, ncols = 2, vals2 = [[5, 10], [21, 28]]\<rparr>,
      samples = ex_samples, components = [],
      properties = \<lparr>names = [''species_neighbor_1'', ''n1'', ''species_neighbor_2'', ''n2''],
                    rows = [[1, 0, 8, 0], [1, 1, 8, 0]]\<rparr>,
      gradients = []\<rparr>"

text \<open>
  A positions gradient \<open>g\<close> of a block \<open>b\<close> is well formed when its values have
  shape \<open>(len (samples g), 3, 2 l + 1, P)\<close> after the block's own component and
  property axes, its sample labels have distinct rows and a \<^verbatim>\<open>sample\<close> column
  that refers to samples of the block, and its first component label set, the
  direction, has one row per entry of its axis (the invariant of section 3 of the
  spec, which every block built by the library satisfies).
  \<open>sample_of g j\<close> is the block sample that gradient row \<open>j\<close> refers to.
\<close>

definition sample_of :: "ndarray4 block_data \<Rightarrow> nat \<Rightarrow> nat" where
  "sample_of g j = nat (rows (samples g) ! j ! index_of ''sample'' (names (samples g)))"

definition wf_gradient :: "ndarray4 block_data \<Rightarrow> expansion_block \<Rightarrow> bool" where
  "wf_gradient g b \<longleftrightarrow>
     wf4 (values' g) \<and> dim0 (values' g) = len (samples g) \<and> dim1 (values' g) = 3 \<and>
     dim2 (values' g) = shape1 (values' b) \<and> dim3 (values' g) = shape2 (values' b) \<and>
     ''sample'' \<in> set (names (samples g)) \<and> distinct (rows (samples g)) \<and>
     list_all (\<lambda>r. 0 \<le> r ! index_of ''sample'' (names (samples g)) \<and>
                    r ! index_of ''sample'' (names (samples g)) < int (shape0 (values' b)))
       (rows (samples g)) \<and>
     components g \<noteq> [] \<and> len (hd (components g)) = dim1 (values' g)"

text \<open>
  The product rule in the words of the spec (section 4.4, step 4d):
  \<open>d(p)/dx = d(arr_1)/dx . arr_2 + arr_1 . d(arr_2)/dx\<close>, each term scaled by
  \<open>factor\<close>. \<open>gradient_term_1\<close> is the first term for gradient row \<open>j\<close> of
  \<^verbatim>\<open>block_1\<close>, direction \<open>x\<close> and properties \<open>p, q\<close>; \<open>gradient_term_2\<close> the
  second term for gradient row \<open>j\<close> of \<^verbatim>\<open>block_2\<close>. \<open>product_rule_gradient\<close>
  starts from zero over the union of the two gradient sample sets and adds each
  term at the row that the back-mapping index array gives for it.
\<close>

definition gradient_term_1 ::
  "real \<Rightarrow> ndarray4 block_data \<Rightarrow> ndarray3 \<Rightarrow> nat \<Rightarrow> nat \<Rightarrow> nat \<Rightarrow> nat \<Rightarrow> real" where
  "gradient_term_1 factor gradient_1 v2 j x p q =
     factor * (\<Sum>m<dim2 (values' gradient_1).
        vals4 (values' gradient_1) ! j ! x ! m ! p * vals v2 ! sample_of gradient_1 j ! m ! q)"

definition gradient_term_2 ::
  "real \<Rightarrow> ndarray3 \<Rightarrow> ndarray4 block_data \<Rightarrow> nat \<Rightarrow> nat \<Rightarrow> nat \<Rightarrow> nat \<Rightarrow> real" where
  "gradient_term_2 factor v1 gradient_2 j x p q =
     factor * (\<Sum>m<dim2 (values' gradient_2).
        vals v1 ! sample_of gradient_2 j ! m ! p * vals4 (values' gradient_2) ! j ! x ! m ! q)"

definition product_rule_gradient ::
  "real \<Rightarrow> expansion_block \<Rightarrow> expansion_block \<Rightarrow> ndarray4 block_data \<Rightarrow> ndarray4 block_data
     \<Rightarrow> ndarray3" where
  "product_rule_gradient factor block_1 block_2 gradient_1 gradient_2 =
     (case union_and_mapping (samples gradient_1) (samples gradient_2) of
        (u, idx_1, idx_2) \<Rightarrow>
          \<lparr>shape0 = len u, shape1 = 3,
           shape2 = shape2 (values' block_1) * shape2 (values' block_2),
           vals = tab3 (\<lambda>r x p q.
                    (\<Sum>j<len (samples gradient_1).
                       if idx_1 ! j = r
                       then gradient_term_1 factor gradient_1 (values' block_2) j x p q else 0)
                  + (\<Sum>j<len (samples gradient_2).
                       if idx_2 ! j = r
                       then gradient_term_2 factor (values' block_1) gradient_2 j x p q else 0))
                  (len u) 3 (shape2 (values' block_1)) (shape2 (values' block_2))\<rparr>)"

text \<open>
  Concrete inputs: positions gradients for the two blocks above, sharing one
  gradient sample, a gradient without samples, and the gradient that
  \<^verbatim>\<open>compute\<close> attaches for the first two.
\<close>

definition ex_gradient_components :: "labels list" where
  "ex_gradient_components =
     [\<lparr>names = [''direction''], rows = [[0], [1], [2]]\<rparr>,
      \<lparr>names = [''spherical_harmonics_m''], rows = [[0]]\<rparr>]"

definition ex_gradient_1 :: "ndarray4 block_data" where
  "ex_gradient_1 =
     \<lparr>values' = \<lparr>dim0 = 2, dim1 = 3, dim2 = 1, dim3 = 2,
                  vals4 = [[[[1, 0]], [[0, 1]], [[0, 0]]], [[[2, 1]], [[1, 0]], [[0, 3]]]]\<rparr>,
      samples = \<lparr>names = [''sample'', ''structure'', ''atom''], rows = [[0, 0, 0], [1, 0, 1]]\<rparr>,
      components = ex_gradient_components,
      properties = \<lparr>names = [''species_neighbor'', ''n''], rows = [[1, 0], [1, 1]]\<rparr>\<rparr>"

definition ex_gradient_2 :: "ndarray4 block_data" where
  "ex_gradient_2 =
     \<lparr>values' = \<lparr>dim0 = 2, dim1 = 3, dim2 = 1, dim3 = 1,
                  vals4 = [[[[1]], [[2]], [[3]]], [[[4]], [[5]], [[6]]]]\<rparr>,
      samples = \<lparr>names = [''sample'', ''structure'', ''atom''], rows = [[0, 0, 0], [1, 0, 0]]\<rparr>,
      components = ex_gradient_components,
      properties = \<lparr>names = [''species_neighbor'', ''n''], rows = [[8, 0]]\<rparr>\<rparr>"

definition ex_gradient_none :: "ndarray4 block_data" where
  "ex_gradient_none =
     \<lparr>values' = \<lparr>dim0 = 0, dim1 = 3, dim2 = 1, dim3 = 2, vals4 = []\<rparr>,
      samples = Labels_empty [''sample'', ''structure'', ''atom''],
      components = ex_gradient_components,
      properties = \<lparr>names = [''species_neighbor'', ''n''], rows = [[1, 0], [1, 1]]\<rparr>\<rparr>"

definition ex_block_1g :: expansion_block where
  "ex_block_1g = ex_block_1\<lparr>gradients := [(''positions'', ex_gradient_1)]\<rparr>"

definition ex_block_2g :: expansion_block where
  "ex_block_2g = ex_block_2\<lparr>gradients := [(''positions'', ex_gradient_2)]\<rparr>"

definition ex_block_1n :: expansion_block where
  "ex_block_1n = ex_block_1\<lparr>gradients := [(''positions'', ex_gradient_none)]\<rparr>"

definition ex_out_gradient :: "ndarray3 block_data" where
  "ex_out_gradient =
     \<lparr>values' = \<lparr>shape0 = 3, shape1 = 3, shape2 = 2,
                  vals = [[[6, 2], [2, 9], [3, 6]],
                          [[14, 7], [7, 0], [0, 21]],
                          [[12, 16], [15, 20], [18, 24]]]\<rparr>,
      samples = \<lparr>names = [''sample'', ''structure'', ''atom''],
                 rows = [[0, 0, 0], [1, 0, 1], [1, 0, 0]]\<rparr>,
      components = [\<lparr>names = [''direction''], rows = [[0], [1], [2]]\<rparr>],
      properties = properties ex_new_block\<rparr>"

section \<open>Lemmas on flattening, reshaping and the two strategies\<close>

lemma length_concat_uniform:
  "(\<And>x. x \<in> set xss \<Longrightarrow> length x = c) \<Longrightarrow> length (concat xss) = length xss * c"
  by (induction xss) auto

lemma split_rows_concat:
  "length xss = n \<Longrightarrow> (\<And>x. x \<in> set xss \<Longrightarrow> length x = c) \<Longrightarrow> split_rows n c (concat xss) = xss"
  by (induction xss arbitrary: n) auto

lemma length_flat2 [simp]: "length (flat2 f P Q) = P * Q"
  unfolding flat2_def by (subst length_concat_uniform[where c = Q]) auto

lemma nth_concat_uniform:
  "(\<And>x. x \<in> set xss \<Longrightarrow> length x = c) \<Longrightarrow> i < length xss \<Longrightarrow> j < c
     \<Longrightarrow> concat xss ! (i * c + j) = xss ! i ! j"
proof (induction xss arbitrary: i)
  case Nil
  then show ?case by simp
next
  case (Cons x xss)
  show ?case
  proof (cases i)
    case 0
    with Cons.prems show ?thesis by (simp add: nth_append)
  next
    case (Suc k)
    with Cons.prems have "concat xss ! (k * c + j) = xss ! k ! j"
      by (intro Cons.IH) auto
    with Suc Cons.prems show ?thesis by (simp add: nth_append)
  qed
qed

lemma flat2_nth: "p < P \<Longrightarrow> q < Q \<Longrightarrow> flat2 f P Q ! (p * Q + q) = f p q"
  unfolding flat2_def by (subst nth_concat_uniform[where c = Q]) auto

lemma map_flat2: "map g (flat2 f P Q) = flat2 (\<lambda>p q. g (f p q)) P Q"
  by (simp add: flat2_def map_concat comp_def)

lemma zip_concat_uniform:
  "length xss = length yss \<Longrightarrow> (\<And>i. i < length xss \<Longrightarrow> length (xss ! i) = length (yss ! i))
    \<Longrightarrow> zip (concat xss) (concat yss) = concat (map2 zip xss yss)"
proof (induction xss yss rule: list_induct2)
  case Nil
  then show ?case by simp
next
  case (Cons x xs y ys)
  have "length x = length y" using Cons.prems[of 0] by simp
  moreover have "zip (concat xs) (concat ys) = concat (map2 zip xs ys)"
    using Cons.prems[of "Suc _"] by (intro Cons.IH) auto
  ultimately show ?case by simp
qed

lemma map2_flat2:
  "map2 h (flat2 f P Q) (flat2 g P Q) = flat2 (\<lambda>p q. h (f p q) (g p q)) P Q"
proof -
  have "zip (flat2 f P Q) (flat2 g P Q) = flat2 (\<lambda>p q. (f p q, g p q)) P Q"
    unfolding flat2_def
    by (subst zip_concat_uniform) (auto simp: zip_map_map map_concat comp_def zip_same_conv_map map_upt_eqI intro!: arg_cong[where f = concat] nth_equalityI)
  then show ?thesis by (simp add: map_flat2)
qed

lemma flat2_cong:
  "(\<And>p q. p < P \<Longrightarrow> q < Q \<Longrightarrow> f p q = g p q) \<Longrightarrow> flat2 f P Q = flat2 g P Q"
  unfolding flat2_def by (intro arg_cong[where f = concat] map_cong) auto

lemma concat_replicate_replicate: "concat (replicate P (replicate Q z)) = replicate (P * Q) z"
  by (induction P) (auto simp: replicate_add)

lemma flat2_const: "flat2 (\<lambda>p q. z) P Q = replicate (P * Q) z"
  by (simp add: flat2_def map_replicate_const concat_replicate_replicate)

lemma outer_flat_flat2:
  "outer_flat r1 r2 c = flat2 (\<lambda>p q. r1 ! p * r2 ! q * c) (length r1) (length r2)"
proof -
  have "map (\<lambda>x. map (\<lambda>y. x * y * c) r2) r1
      = map (\<lambda>p. map (\<lambda>q. r1 ! p * r2 ! q * c) [0..<length r2]) [0..<length r1]"
    by (intro nth_equalityI) auto
  then show ?thesis by (simp add: outer_flat_def flat2_def)
qed

lemma sum_list_concat_map: "sum_list (concat xss) = sum_list (map sum_list xss)"
  by (induction xss) auto

lemma sum_list_flat2:
  "sum_list (flat2 f P Q) = sum_list (map (\<lambda>p. sum_list (map (\<lambda>q. f p q) [0..<Q])) [0..<P])"
  by (simp add: flat2_def sum_list_concat_map comp_def)

lemma wf3_row: "wf3 a \<Longrightarrow> i < shape0 a \<Longrightarrow> length (vals a ! i) = shape1 a"
  by (auto simp: wf3_def list_all_length)

lemma wf3_entry: "wf3 a \<Longrightarrow> i < shape0 a \<Longrightarrow> m < shape1 a \<Longrightarrow> length (vals a ! i ! m) = shape2 a"
  by (auto simp: wf3_def list_all_length)

lemma tab3_cong:
  "(\<And>i u p q. i < n \<Longrightarrow> u < L \<Longrightarrow> p < P \<Longrightarrow> q < Q \<Longrightarrow> f i u p q = g i u p q)
     \<Longrightarrow> tab3 f n L P Q = tab3 g n L P Q"
  unfolding tab3_def by (intro map_cong refl flat2_cong) auto

lemma zeros3_tab3: "vals (zeros3 n L (P * Q)) = tab3 (\<lambda>i u p q. 0) n L P Q"
  by (simp add: zeros3_def tab3_def flat2_const map_replicate_const)

lemma list_update_map_upt:
  "(map g [0..<L])[u0 := v] = map (\<lambda>u. if u = u0 then v else g u) [0..<L]"
  by (intro nth_equalityI) (auto simp: nth_list_update)

lemma np_index_nonneg: "0 \<le> i \<Longrightarrow> i < int n \<Longrightarrow> np_index n i = Some (nat i)"
  by (simp add: np_index_def)

lemma sparse_accumulate_tab3:
  assumes wf: "wf3 a1" "wf3 a2"
    and sh: "shape0 a1 = n" "shape0 a2 = n" "shape2 a1 = P" "shape2 a2 = Q"
            "shape0 out = n" "shape1 out = L"
    and out: "vals out = tab3 f n L P Q"
    and rng: "0 \<le> m1" "m1 < int (shape1 a1)" "0 \<le> m2" "m2 < int (shape1 a2)" "0 \<le> mu" "mu < int L"
  shows "sparse_accumulate a1 a2 out (m1, m2, mu) c =
           Inr (out\<lparr>vals := tab3 (\<lambda>i u p q. f i u p q +
                   (if u = nat mu then vals a1 ! i ! nat m1 ! p * vals a2 ! i ! nat m2 ! q * c else 0))
                 n L P Q\<rparr>)"
proof -
  have row: "(vals out ! i)[nat mu := map2 (+) (vals out ! i ! nat mu)
                (outer_flat (vals a1 ! i ! nat m1) (vals a2 ! i ! nat m2) c)]
           = map (\<lambda>u. flat2 (\<lambda>p q. f i u p q +
                   (if u = nat mu then vals a1 ! i ! nat m1 ! p * vals a2 ! i ! nat m2 ! q * c else 0)) P Q) [0..<L]"
    if i: "i < n" for i
  proof -
    have l1: "length (vals a1 ! i ! nat m1) = P"
      using wf3_entry[OF wf(1), of i "nat m1"] i sh rng by simp
    have l2: "length (vals a2 ! i ! nat m2) = Q"
      using wf3_entry[OF wf(2), of i "nat m2"] i sh rng by simp
    have mu: "nat mu < L" using rng by simp
    have vi: "vals out ! i = map (\<lambda>u. flat2 (f i u) P Q) [0..<L]"
      using i by (simp add: out tab3_def)
    show ?thesis
      unfolding vi list_update_map_upt
      using mu by (intro map_cong refl) (auto simp: outer_flat_flat2 l1 l2 map2_flat2)
  qed
  show ?thesis
    using rng sh
    by (simp add: sparse_accumulate_def np_index_nonneg tab3_def[of _ n L P Q] row cong: map_cong)
qed

lemma sparse_loop_tab3:
  assumes wf: "wf3 a1" "wf3 a2"
    and sh: "shape0 a1 = n" "shape0 a2 = n" "shape2 a1 = P" "shape2 a2 = Q"
  shows "shape0 out = n \<Longrightarrow> shape1 out = L \<Longrightarrow> vals out = tab3 f n L P Q
    \<Longrightarrow> list_all (key_in_range (shape1 a1) (shape1 a2) L) ks
    \<Longrightarrow> set ks \<subseteq> fst ` set cg
    \<Longrightarrow> sparse_loop a1 a2 cg ks out =
          Inr (out\<lparr>vals := tab3 (\<lambda>i u p q. f i u p q
                  + sum_list (map (\<lambda>k. sparse_term a1 a2 cg k i u p q) ks)) n L P Q\<rparr>)"
proof (induction ks arbitrary: out f)
  case Nil
  then show ?case by simp
next
  case (Cons k ks)
  obtain m1 m2 mu where k: "k = (m1, m2, mu)" by (cases k) auto
  from Cons.prems have "k \<in> fst ` set cg" by simp
  then obtain c where c: "map_of cg k = Some c"
    by (metis domD dom_map_of_conv_image_fst)
  have rng: "0 \<le> m1" "m1 < int (shape1 a1)" "0 \<le> m2" "m2 < int (shape1 a2)" "0 \<le> mu" "mu < int L"
    using Cons.prems(4) by (auto simp: k key_in_range_def)
  let ?f' = "\<lambda>i u p q. f i u p q +
     (if u = nat mu then vals a1 ! i ! nat m1 ! p * vals a2 ! i ! nat m2 ! q * c else 0)"
  let ?out' = "out\<lparr>vals := tab3 ?f' n L P Q\<rparr>"
  have step: "sparse_accumulate a1 a2 out k c = Inr ?out'"
    unfolding k
    by (rule sparse_accumulate_tab3[OF wf sh Cons.prems(1,2,3) rng])
  have "sparse_loop a1 a2 cg ks ?out' =
          Inr (?out'\<lparr>vals := tab3 (\<lambda>i u p q. ?f' i u p q
                  + sum_list (map (\<lambda>k. sparse_term a1 a2 cg k i u p q) ks)) n L P Q\<rparr>)"
    using Cons.prems by (intro Cons.IH) auto
  moreover have "?f' i u p q = f i u p q + sparse_term a1 a2 cg k i u p q" for i u p q
    using c by (simp add: sparse_term_def k)
  ultimately show ?case
    using c step by (simp add: add.assoc)
qed

lemma bidx_id: "i < n \<Longrightarrow> bidx n i = i"
  by (auto simp: bidx_def)

lemma broadcast_dim_same [simp]: "broadcast_dim n n = Some n"
  by (simp add: broadcast_dim_def)

lemma concat_concat: "concat (concat xsss) = concat (map concat xsss)"
  by (induction xsss) auto

lemma concat_flat2: "concat (flat2 f P Q) = concat (map (\<lambda>p. concat (map (\<lambda>q. f p q) [0..<Q])) [0..<P])"
  by (simp add: flat2_def concat_concat map_concat comp_def)

lemma wf3_vals_flat2: "wf3 a \<Longrightarrow> concat (vals a) = flat2 (\<lambda>i m. vals a ! i ! m) (shape0 a) (shape1 a)"
proof -
  assume wf: "wf3 a"
  have "vals a = map (\<lambda>i. map (\<lambda>m. vals a ! i ! m) [0..<shape1 a]) [0..<shape0 a]"
    using wf by (intro nth_equalityI) (auto simp: wf3_def list_all_length)
  then show ?thesis unfolding flat2_def by simp
qed

lemma swapped_outer5:
  assumes "shape0 a1 = n" "shape0 a2 = n"
  shows "swapaxes_1_4 (shape1 a2) (shape2 a2) (shape1 a1) (shape2 a1) (outer5 a1 a2 n) =
     map (\<lambda>i. map (\<lambda>p. map (\<lambda>q. map (\<lambda>a. map (\<lambda>b.
            vals a1 ! i ! a ! p * vals a2 ! i ! b ! q)
          [0..<shape1 a2]) [0..<shape1 a1]) [0..<shape2 a2]) [0..<shape2 a1]) [0..<n]"
  using assms by (simp add: swapaxes_1_4_def outer5_def bidx_id cong: map_cong)

lemma flatten_swapped:
  "concat (concat (concat (concat
     (map (\<lambda>i. map (\<lambda>p. map (\<lambda>q. map (\<lambda>a. map (\<lambda>b.
            vals a1 ! i ! a ! p * vals a2 ! i ! b ! q)
          [0..<shape1 a2]) [0..<shape1 a1]) [0..<shape2 a2]) [0..<shape2 a1]) [0..<n])))) =
   concat (concat (map (\<lambda>i. flat2 (pair_row a1 a2 i) (shape2 a1) (shape2 a2)) [0..<n]))"
  by (simp add: pair_row_def flat2_def concat_concat map_concat comp_def)

lemma length_pair_row [simp]: "length (pair_row a1 a2 i p q) = shape1 a1 * shape1 a2"
  by (simp add: pair_row_def)

lemma reshape_swapped:
  assumes pos: "0 < P * Q * (M1 * M2)"
    and sh: "shape1 a1 = M1" "shape1 a2 = M2" "shape2 a1 = P" "shape2 a2 = Q"
  shows "reshape_unknown_3
           (concat (concat (map (\<lambda>i. flat2 (pair_row a1 a2 i) P Q) [0..<n]))) (P * Q) (M1 * M2) =
         Inr \<lparr>shape0 = n, shape1 = P * Q, shape2 = M1 * M2,
              vals = map (\<lambda>i. flat2 (pair_row a1 a2 i) P Q) [0..<n]\<rparr>"
proof -
  let ?W = "concat (map (\<lambda>i. flat2 (pair_row a1 a2 i) P Q) [0..<n])"
  have lenW: "length ?W = n * (P * Q)"
    by (subst length_concat_uniform[where c = "P * Q"]) auto
  have rows: "\<And>x. x \<in> set ?W \<Longrightarrow> length x = M1 * M2"
    by (auto simp: flat2_def sh)
  have len: "length (concat ?W) = n * (P * Q) * (M1 * M2)"
    using length_concat_uniform[of ?W "M1 * M2"] rows lenW by simp
  have 1: "split_rows (n * (P * Q)) (M1 * M2) (concat ?W) = ?W"
    using lenW rows by (intro split_rows_concat) auto
  have 2: "split_rows n (P * Q) ?W = map (\<lambda>i. flat2 (pair_row a1 a2 i) P Q) [0..<n]"
    by (intro split_rows_concat) auto
  have d: "n * (P * Q) * (M1 * M2) div (P * Q * (M1 * M2)) = n"
    using pos by (simp add: mult.assoc)
  show ?thesis
    using pos by (simp add: reshape_unknown_3_def len d 1 2 Let_def mult.assoc del: mult_eq_0_iff)
qed

lemma length_concat_vals: "wf3 a \<Longrightarrow> length (concat (vals a)) = shape0 a * shape1 a"
  by (subst length_concat_uniform[where c = "shape1 a"]) (auto simp: wf3_def list_all_iff)

lemma reshape_cg:
  assumes wf: "wf3 cg" and L: "0 < shape2 cg"
  shows "reshape_unknown_2 (concat (concat (vals cg))) (int (shape2 cg)) = Inr (concat (vals cg))"
proof -
  have rows: "\<And>x. x \<in> set (concat (vals cg)) \<Longrightarrow> length x = shape2 cg"
    using wf by (auto simp: wf3_def list_all_iff)
  have len: "length (concat (concat (vals cg))) = shape0 cg * shape1 cg * shape2 cg"
    using length_concat_uniform[of "concat (vals cg)" "shape2 cg"] rows length_concat_vals[OF wf]
    by simp
  have "split_rows (shape0 cg * shape1 cg) (shape2 cg) (concat (concat (vals cg))) = concat (vals cg)"
    using rows length_concat_vals[OF wf] by (intro split_rows_concat) auto
  then show ?thesis using L by (simp add: reshape_unknown_2_def len)
qed

lemma dot_pair_row:
  assumes wf: "wf3 cg" and sh: "shape0 cg = shape1 a1" "shape1 cg = shape1 a2"
  shows "dot (pair_row a1 a2 i p q) (map (\<lambda>r. r ! u) (concat (vals cg))) = dense_term a1 a2 cg i u p q"
  by (simp add: dot_def pair_row_def wf3_vals_flat2[OF wf] sh map_flat2 map2_flat2 sum_list_flat2
      dense_term_def)

lemma map_nth_upt: "length xs = n \<Longrightarrow> map (\<lambda>i. f (xs ! i)) [0..<n] = map f xs"
  by (intro nth_equalityI) auto

lemma swapaxes_flat2_rows:
  "swapaxes_1_2 \<lparr>shape0 = n, shape1 = P * Q, shape2 = L,
       vals = map (\<lambda>i. flat2 (\<lambda>p q. map (\<lambda>u. g i u p q) [0..<L]) P Q) [0..<n]\<rparr>
   = \<lparr>shape0 = n, shape1 = L, shape2 = P * Q, vals = tab3 g n L P Q\<rparr>"
proof -
  have "map (\<lambda>j. flat2 (\<lambda>p q. map (\<lambda>u. g i u p q) [0..<L]) P Q ! j ! u) [0..<P * Q]
      = flat2 (g i u) P Q" if "u < L" for i u
  proof -
    have "map (\<lambda>j. flat2 (\<lambda>p q. map (\<lambda>u. g i u p q) [0..<L]) P Q ! j ! u) [0..<P * Q]
        = map (\<lambda>row. row ! u) (flat2 (\<lambda>p q. map (\<lambda>u. g i u p q) [0..<L]) P Q)"
      by (rule map_nth_upt) simp
    also have "\<dots> = flat2 (g i u) P Q"
      using that by (simp add: map_flat2)
    finally show ?thesis .
  qed
  then show ?thesis
    by (simp add: swapaxes_1_2_def tab3_def cong: map_cong)
qed

lemma dense_combine_tab3:
  assumes wf: "wf3 a1" "wf3 a2" "wf3 cg"
    and n: "shape0 a1 = n" "shape0 a2 = n"
    and lam: "0 \<le> lam"
    and cgsh: "shape0 cg = shape1 a1" "shape1 cg = shape1 a2" "shape2 cg = nat (2 * lam + 1)"
    and pos: "0 < shape2 a1" "0 < shape2 a2" "0 < shape1 a1" "0 < shape1 a2"
    and look: "coeffs cache ((int (shape1 a1) - 1) div 2, (int (shape1 a2) - 1) div 2, lam) = Some cg"
  shows "dense_combine (Ndarray a1) a2 lam cache =
           Inr (Some \<lparr>shape0 = n, shape1 = nat (2 * lam + 1), shape2 = shape2 a1 * shape2 a2,
                      vals = tab3 (dense_term a1 a2 cg) n (nat (2 * lam + 1)) (shape2 a1) (shape2 a2)\<rparr>)"
proof -
  let ?P = "shape2 a1" and ?Q = "shape2 a2" and ?M1 = "shape1 a1" and ?M2 = "shape1 a2"
  let ?L = "nat (2 * lam + 1)"
  let ?R = "map (\<lambda>i. flat2 (pair_row a1 a2 i) ?P ?Q) [0..<n]"
  have pos': "0 < ?P * ?Q * (?M1 * ?M2)" using pos by simp
  have r3: "reshape_unknown_3
         (concat (concat (concat (concat
            (swapaxes_1_4 ?M2 ?Q ?M1 ?P (outer5 a1 a2 n)))))) (?P * ?Q) (?M1 * ?M2) =
         Inr \<lparr>shape0 = n, shape1 = ?P * ?Q, shape2 = ?M1 * ?M2, vals = ?R\<rparr>"
    unfolding swapped_outer5[OF n] flatten_swapped
    by (rule reshape_swapped[OF pos']) simp_all
  have iL: "int (shape2 cg) = 2 * lam + 1" and pL: "0 < shape2 cg"
    using lam cgsh(3) by simp_all
  have r2: "reshape_unknown_2 (concat (concat (vals cg))) (2 * lam + 1) = Inr (concat (vals cg))"
    using reshape_cg[OF wf(3) pL] unfolding iL .
  have lencg: "length (concat (vals cg)) = ?M1 * ?M2"
    using length_concat_vals[OF wf(3)] cgsh by simp
  have mm: "matmul_3_2 \<lparr>shape0 = n, shape1 = ?P * ?Q, shape2 = ?M1 * ?M2, vals = ?R\<rparr>
              (concat (vals cg)) ?L =
            Inr \<lparr>shape0 = n, shape1 = ?P * ?Q, shape2 = ?L,
                 vals = map (\<lambda>i. flat2 (\<lambda>p q. map (\<lambda>u. dense_term a1 a2 cg i u p q) [0..<?L]) ?P ?Q) [0..<n]\<rparr>"
    by (simp add: matmul_3_2_def lencg matmul2_def map_flat2 dot_pair_row[OF wf(3) cgsh(1,2)])
  have sw: "swapaxes_1_2 \<lparr>shape0 = n, shape1 = ?P * ?Q, shape2 = ?L,
                 vals = map (\<lambda>i. flat2 (\<lambda>p q. map (\<lambda>u. dense_term a1 a2 cg i u p q) [0..<?L]) ?P ?Q) [0..<n]\<rparr>
        = \<lparr>shape0 = n, shape1 = ?L, shape2 = ?P * ?Q,
              vals = tab3 (dense_term a1 a2 cg) n ?L ?P ?Q\<rparr>"
    by (rule swapaxes_flat2_rows)
  show ?thesis
    unfolding dense_combine_def
    by (simp only: array.case Let_def look option.case n broadcast_dim_same r3 r2 mm sw sum.case)
qed

lemma sparse_sum_as_dense:
  fixes X Y :: "nat \<Rightarrow> real"
  assumes "distinct ks" "list_all (key_in_range M1 M2 L) ks"
  shows "sum_list (map (\<lambda>k. case k of (m1, m2, mu) \<Rightarrow>
                      if u = nat mu then X (nat m1) * Y (nat m2) * w k else 0) ks) =
         (\<Sum>a<M1. \<Sum>b<M2. X a * Y b * (if (int a, int b, int u) \<in> set ks then w (int a, int b, int u) else 0))"
  using assms
proof (induction ks)
  case Nil
  then show ?case by simp
next
  case (Cons k ks)
  obtain m1 m2 mu where k: "k = (m1, m2, mu)" by (cases k) auto
  have rng: "0 \<le> m1" "m1 < int M1" "0 \<le> m2" "m2 < int M2" "0 \<le> mu"
    using Cons.prems by (auto simp: k key_in_range_def)
  have notin: "k \<notin> set ks" using Cons.prems by simp
  have split: "X a * Y b * (if (int a, int b, int u) \<in> set (k # ks) then w (int a, int b, int u) else 0)
      = (if a = nat m1 then (if b = nat m2 then (if u = nat mu then X (nat m1) * Y (nat m2) * w k else 0) else 0) else 0)
        + X a * Y b * (if (int a, int b, int u) \<in> set ks then w (int a, int b, int u) else 0)" for a b
    using notin rng by (auto simp: k)
  have delta: "(\<Sum>a<M1. \<Sum>b<M2.
        (if a = nat m1 then (if b = nat m2 then (if u = nat mu then X (nat m1) * Y (nat m2) * w k else 0) else 0) else 0))
      = (if u = nat mu then X (nat m1) * Y (nat m2) * w k else 0)"
  proof -
    have "(\<Sum>a<M1. \<Sum>b<M2.
        (if a = nat m1 then (if b = nat m2 then (if u = nat mu then X (nat m1) * Y (nat m2) * w k else 0) else 0) else 0))
      = (\<Sum>a<M1. if a = nat m1 then (\<Sum>b<M2. if b = nat m2 then (if u = nat mu then X (nat m1) * Y (nat m2) * w k else 0) else 0) else 0)"
      by (intro sum.cong refl) auto
    also have "\<dots> = (\<Sum>b<M2. if b = nat m2 then (if u = nat mu then X (nat m1) * Y (nat m2) * w k else 0) else 0)"
      using rng by (subst sum.delta) auto
    also have "\<dots> = (if u = nat mu then X (nat m1) * Y (nat m2) * w k else 0)"
      using rng by (subst sum.delta) auto
    finally show ?thesis .
  qed
  have IH: "sum_list (map (\<lambda>k. case k of (m1, m2, mu) \<Rightarrow>
                      if u = nat mu then X (nat m1) * Y (nat m2) * w k else 0) ks) =
         (\<Sum>a<M1. \<Sum>b<M2. X a * Y b * (if (int a, int b, int u) \<in> set ks then w (int a, int b, int u) else 0))"
    using Cons.prems by (intro Cons.IH) auto
  show ?case
    unfolding split sum.distrib delta
    using IH by (simp add: k)
qed

lemma sparse_term_sum:
  assumes cons: "cg_consistent sp dn"
    and sh: "shape0 dn = shape1 a1" "shape1 dn = shape1 a2"
    and u: "u < shape2 dn"
  shows "sum_list (map (\<lambda>k. sparse_term a1 a2 sp k i u p q) (map fst sp)) = dense_term a1 a2 dn i u p q"
proof -
  let ?w = "\<lambda>k. case map_of sp k of None \<Rightarrow> 0 | Some c \<Rightarrow> c"
  have d: "distinct (map fst sp)"
    and r: "list_all (key_in_range (shape1 a1) (shape1 a2) (shape2 dn)) (map fst sp)"
    using cons sh by (auto simp: cg_consistent_def)
  have entry: "vals dn ! a ! b ! u = ?w (int a, int b, int u)"
    if "a < shape1 a1" "b < shape1 a2" for a b
    using cons sh u that by (auto simp: cg_consistent_def list_all_iff)
  have zero: "(if (int a, int b, int u) \<in> set (map fst sp) then ?w (int a, int b, int u) else 0)
               = ?w (int a, int b, int u)" for a b
    by (auto simp: map_of_eq_None_iff[symmetric])
  have "sum_list (map (\<lambda>k. sparse_term a1 a2 sp k i u p q) (map fst sp))
      = sum_list (map (\<lambda>k. case k of (m1, m2, mu) \<Rightarrow>
            if u = nat mu then (vals a1 ! i ! nat m1 ! p) * (vals a2 ! i ! nat m2 ! q) * ?w k else 0) (map fst sp))"
    by (intro arg_cong[where f = sum_list] map_cong refl) (auto simp: sparse_term_def)
  also have "\<dots> = (\<Sum>a<shape1 a1. \<Sum>b<shape1 a2. (vals a1 ! i ! a ! p) * (vals a2 ! i ! b ! q)
                 * (if (int a, int b, int u) \<in> set (map fst sp) then ?w (int a, int b, int u) else 0))"
    by (rule sparse_sum_as_dense[OF d r])
  also have "\<dots> = (\<Sum>a<shape1 a1. \<Sum>b<shape1 a2. (vals a1 ! i ! a ! p) * (vals a2 ! i ! b ! q)
                 * vals dn ! a ! b ! u)"
    unfolding zero by (intro sum.cong refl) (simp add: entry)
  also have "\<dots> = dense_term a1 a2 dn i u p q"
    by (simp add: dense_term_def interv_sum_list_conv_sum_set_nat atLeast0LessThan)
  finally show ?thesis .
qed

lemma sparse_combine_tab3:
  assumes wf: "wf3 a1" "wf3 a2"
    and n: "shape0 a1 = n" "shape0 a2 = n"
    and lam: "0 \<le> lam"
    and look: "coeffs cache ((int (shape1 a1) - 1) div 2, (int (shape1 a2) - 1) div 2, lam) = Some sp"
    and rng: "list_all (key_in_range (shape1 a1) (shape1 a2) (nat (2 * lam + 1))) (map fst sp)"
  shows "sparse_combine (Ndarray a1) a2 lam cache False =
           Inr (Some \<lparr>shape0 = n, shape1 = nat (2 * lam + 1), shape2 = shape2 a1 * shape2 a2,
                      vals = tab3 (\<lambda>i u p q. sum_list (map (\<lambda>k. sparse_term a1 a2 sp k i u p q) (map fst sp)))
                               n (nat (2 * lam + 1)) (shape2 a1) (shape2 a2)\<rparr>)"
proof -
  let ?L = "nat (2 * lam + 1)" and ?P = "shape2 a1" and ?Q = "shape2 a2"
  let ?z = "zeros3 n ?L (?P * ?Q)"
  have nonneg: "(2 * lam + 1 < 0) = False" using lam by simp
  have "sparse_loop a1 a2 sp (map fst sp) ?z =
          Inr (?z\<lparr>vals := tab3 (\<lambda>i u p q. 0
                  + sum_list (map (\<lambda>k. sparse_term a1 a2 sp k i u p q) (map fst sp))) n ?L ?P ?Q\<rparr>)"
    using sparse_loop_tab3[OF wf n refl refl, where out = ?z and L = ?L and f = "\<lambda>i u p q. 0"
            and ks = "map fst sp" and cg = sp] rng
    by (simp add: zeros3_tab3) (simp add: zeros3_def)
  then show ?thesis
    unfolding sparse_combine_def
    by (simp only: array.case Let_def n look option.case sum.case if_False refl nonneg)
       (simp add: zeros3_def)
qed

lemma wf3_tab3: "wf3 \<lparr>shape0 = n, shape1 = L, shape2 = P * Q, vals = tab3 f n L P Q\<rparr>"
  by (simp add: wf3_def tab3_def list_all_iff)

lemma ex_consistent: "cg_consistent ex_sparse_coeffs ex_dense_coeffs"
  by (simp add: cg_consistent_def ex_sparse_coeffs_def ex_dense_coeffs_def wf3_def key_in_range_def)

subsection \<open>The two strategies away from the empty property axis\<close>

text \<open>
  Over real entries, that is as long as no float64 operation overflows: for a
  non-negative \<open>lam\<close>, equal sample counts, property axes of length at least 1 and
  consistent coefficients, the two strategies return the same array, of shape
  \<open>(n, 2 lam + 1, P * Q)\<close>.
\<close>

lemma nat_odd: "nat (2 * int lam + 1) = 2 * lam + 1"
  by (simp add: nat_add_distrib nat_mult_distrib)

lemma strategies_agree_on_nonempty_properties:
  assumes "wf3 a1" "wf3 a2"
    and "shape0 a1 = shape0 a2"
    and "shape1 a1 = 2 * l1 + 1" "shape1 a2 = 2 * l2 + 1"
    and "0 < shape2 a1" "0 < shape2 a2"
    and "coeffs sparse_cache (int l1, int l2, int lam) = Some sp"
    and "coeffs dense_cache (int l1, int l2, int lam) = Some dn"
    and "cg_consistent sp dn"
    and "shape0 dn = 2 * l1 + 1" "shape1 dn = 2 * l2 + 1" "shape2 dn = 2 * lam + 1"
  shows "sparse_combine (Ndarray a1) a2 (int lam) sparse_cache False =
           dense_combine (Ndarray a1) a2 (int lam) dense_cache \<and>
         (\<exists>out. dense_combine (Ndarray a1) a2 (int lam) dense_cache = Inr (Some out) \<and>
            has_shape out (shape0 a1) (2 * lam + 1) (shape2 a1 * shape2 a2))"
proof -
  let ?n = "shape0 a1" and ?L = "nat (2 * int lam + 1)" and ?P = "shape2 a1" and ?Q = "shape2 a2"
  have l1: "(int (shape1 a1) - 1) div 2 = int l1" and l2: "(int (shape1 a2) - 1) div 2 = int l2"
    using assms(4,5) by simp_all
  have L: "shape2 dn = ?L" using assms(13) by (simp only: nat_odd)
  have wfdn: "wf3 dn" and rng: "list_all (key_in_range (shape1 a1) (shape1 a2) ?L) (map fst sp)"
    using assms(4,5,10,11,12) unfolding L[symmetric] by (simp_all add: cg_consistent_def)
  have d: "dense_combine (Ndarray a1) a2 (int lam) dense_cache =
             Inr (Some \<lparr>shape0 = ?n, shape1 = ?L, shape2 = ?P * ?Q,
                        vals = tab3 (dense_term a1 a2 dn) ?n ?L ?P ?Q\<rparr>)"
    using assms(1-12) L by (intro dense_combine_tab3 wfdn) (simp_all add: l1 l2)
  have s: "sparse_combine (Ndarray a1) a2 (int lam) sparse_cache False =
             Inr (Some \<lparr>shape0 = ?n, shape1 = ?L, shape2 = ?P * ?Q,
                        vals = tab3 (\<lambda>i u p q. sum_list (map (\<lambda>k. sparse_term a1 a2 sp k i u p q) (map fst sp)))
                                 ?n ?L ?P ?Q\<rparr>)"
    using assms(1-12) rng by (intro sparse_combine_tab3) (simp_all add: l1 l2)
  have "tab3 (\<lambda>i u p q. sum_list (map (\<lambda>k. sparse_term a1 a2 sp k i u p q) (map fst sp))) ?n ?L ?P ?Q
      = tab3 (dense_term a1 a2 dn) ?n ?L ?P ?Q"
    using assms(4,5,10,11,12) L by (intro tab3_cong sparse_term_sum) simp_all
  moreover have "has_shape \<lparr>shape0 = ?n, shape1 = ?L, shape2 = ?P * ?Q,
                        vals = tab3 (dense_term a1 a2 dn) ?n ?L ?P ?Q\<rparr> ?n (2 * lam + 1) (?P * ?Q)"
    using wf3_tab3 by (simp only: has_shape_def nat_odd ndarray3.simps simp_thms)
  ultimately show ?thesis using s d by simp
qed

section \<open>Lemmas on the values and labels of the new block\<close>

lemma TensorBlock_Inr_iff:
  "TensorBlock sh v s cs p = Inr b \<longleftrightarrow>
     sh v = len s # map len cs @ [len p] \<and>
     b = \<lparr>values' = v, samples = s, components = cs, properties = p\<rparr>"
  by (auto simp: TensorBlock_def)

lemma without_gradients_simps [simp]:
  "values' (without_gradients b) = values' b" "samples (without_gradients b) = samples b"
  "components (without_gradients b) = components b"
  "properties (without_gradients b) = properties b" "gradients (without_gradients b) = []"
  by (simp_all add: without_gradients_def)

lemma add_gradient_frame:
  "add_gradient b parameter g = Inr b' \<Longrightarrow>
     values' b' = values' b \<and> samples b' = samples b \<and> components b' = components b \<and>
     properties b' = properties b"
  by (auto simp: add_gradient_def split: if_splits)

lemma positions_gradients_frame:
  "positions_gradients new_block block_1 block_2 factor = Inr b' \<Longrightarrow>
     values' b' = values' new_block \<and> samples b' = samples new_block \<and>
     components b' = components new_block \<and> properties b' = properties new_block"
  by (auto simp: positions_gradients_def bind_def split: sum.splits list.splits prod.splits
      dest!: add_gradient_frame)

lemma gradients_loop_frame:
  "gradients_loop ps new_block block_1 block_2 factor = Inr b' \<Longrightarrow>
     values' b' = values' new_block \<and> samples b' = samples new_block \<and>
     components b' = components new_block \<and> properties b' = properties new_block"
proof (induction ps arbitrary: new_block)
  case Nil
  then show ?case by simp
next
  case (Cons parameter ps)
  show ?case
  proof (cases "parameter = ''positions''")
    case True
    with Cons.prems obtain nb where
      1: "positions_gradients new_block block_1 block_2 factor = Inr nb" and
      2: "gradients_loop ps nb block_1 block_2 factor = Inr b'"
      by (auto simp: bind_def split: sum.splits)
    from positions_gradients_frame[OF 1] Cons.IH[OF 2] show ?thesis by simp
  next
    case False
    with Cons.prems Cons.IH show ?thesis by simp
  qed
qed

lemma compute_block_fields:
  assumes "compute_block factor block_1 block_2 = Inr new_block"
  shows "samples block_1 = samples block_2"
    and "samples new_block = samples block_1"
    and "components new_block = []"
    and "properties new_block = block_properties (properties block_1) (properties block_2)"
    and "\<exists>product. matmul_3_3 (swapaxes_1_2 (values' block_1)) (values' block_2) = Inr product \<and>
           reshape_3_to_2 (scale3 factor product) = Inr (values' new_block)"
  using assms
  by (auto simp: compute_block_def bind_def Let_def TensorBlock_Inr_iff
      split: if_splits sum.splits dest!: gradients_loop_frame)

lemma dot_map_upt:
  "length ys = M \<Longrightarrow> dot (map f [0..<M]) (map g ys) = sum_list (map (\<lambda>m. f m * g (ys ! m)) [0..<M])"
proof -
  assume "length ys = M"
  then have "map2 (*) (map f [0..<M]) (map g ys) = map (\<lambda>m. f m * g (ys ! m)) [0..<M]"
    by (intro nth_equalityI) auto
  then show ?thesis by (simp add: dot_def)
qed

lemma matmul2_swapped:
  assumes "length b = M"
  shows "matmul2 (map (\<lambda>p. map (\<lambda>m. f m p) [0..<M]) [0..<P]) b Q =
         map (\<lambda>p. map (\<lambda>q. sum_list (map (\<lambda>m. f m p * b ! m ! q) [0..<M])) [0..<Q]) [0..<P]"
  using assms by (simp add: matmul2_def dot_map_upt)

lemma matmul_swapped_3_3:
  assumes wf: "wf3 v1" "wf3 v2"
    and sh: "shape0 v1 = n" "shape0 v2 = n" "shape1 v2 = shape1 v1"
  shows "matmul_3_3 (swapaxes_1_2 v1) v2 =
         Inr \<lparr>shape0 = n, shape1 = shape2 v1, shape2 = shape2 v2,
              vals = map (\<lambda>i. map (\<lambda>p. map (\<lambda>q.
                        sum_list (map (\<lambda>m. vals v1 ! i ! m ! p * vals v2 ! i ! m ! q) [0..<shape1 v1]))
                      [0..<shape2 v2]) [0..<shape2 v1]) [0..<n]\<rparr>"
proof -
  have "matmul2 (vals (swapaxes_1_2 v1) ! i) (vals v2 ! i) (shape2 v2) =
        map (\<lambda>p. map (\<lambda>q. sum_list (map (\<lambda>m. vals v1 ! i ! m ! p * vals v2 ! i ! m ! q) [0..<shape1 v1]))
                      [0..<shape2 v2]) [0..<shape2 v1]"
    if "i < n" for i
  proof -
    have "vals (swapaxes_1_2 v1) ! i = map (\<lambda>p. map (\<lambda>m. vals v1 ! i ! m ! p) [0..<shape1 v1]) [0..<shape2 v1]"
      using that wf(1) sh by (simp add: swapaxes_1_2_def wf3_def)
    moreover have "length (vals v2 ! i) = shape1 v1"
      using wf3_row[OF wf(2), of i] that sh by simp
    ultimately show ?thesis by (simp add: matmul2_swapped)
  qed
  then show ?thesis
    using sh by (simp add: matmul_3_3_def swapaxes_1_2_def bidx_id cong: map_cong)
qed

lemma reshape_3_to_2_flat2:
  assumes "0 < n"
  shows "reshape_3_to_2 \<lparr>shape0 = n, shape1 = P, shape2 = Q,
            vals = map (\<lambda>i. map (\<lambda>p. map (\<lambda>q. e i p q) [0..<Q]) [0..<P]) [0..<n]\<rparr>
         = Inr \<lparr>nrows = n, ncols = P * Q, vals2 = map (\<lambda>i. flat2 (e i) P Q) [0..<n]\<rparr>"
proof -
  let ?rows = "map (\<lambda>i. flat2 (e i) P Q) [0..<n]"
  have flat: "concat (concat (map (\<lambda>i. map (\<lambda>p. map (\<lambda>q. e i p q) [0..<Q]) [0..<P]) [0..<n]))
      = concat ?rows"
    by (simp add: concat_concat flat2_def comp_def)
  have len: "length (concat ?rows) = n * (P * Q)"
    by (subst length_concat_uniform[where c = "P * Q"]) auto
  have sp: "split_rows n (P * Q) (concat ?rows) = ?rows"
    by (intro split_rows_concat) auto
  show ?thesis
    using assms by (simp add: reshape_3_to_2_def flat len sp Let_def)
qed

lemma reshape_3_to_2_zero: "shape0 a = 0 \<Longrightarrow> reshape_3_to_2 a = Inl (ValueError RESHAPE_ERROR)"
  by (simp add: reshape_3_to_2_def Let_def)

lemma block_values:
  assumes wf: "wf3 v1" "wf3 v2"
    and sh: "shape0 v1 = n" "shape0 v2 = n" "shape1 v2 = shape1 v1"
    and n: "0 < n"
    and m: "matmul_3_3 (swapaxes_1_2 v1) v2 = Inr product"
  shows "reshape_3_to_2 (scale3 factor product) =
           Inr \<lparr>nrows = n, ncols = shape2 v1 * shape2 v2,
                vals2 = map (\<lambda>i. flat2 (invariant_entry factor v1 v2 i) (shape2 v1) (shape2 v2)) [0..<n]\<rparr>"
proof -
  have p: "product = \<lparr>shape0 = n, shape1 = shape2 v1, shape2 = shape2 v2,
              vals = map (\<lambda>i. map (\<lambda>p. map (\<lambda>q.
                        sum_list (map (\<lambda>m. vals v1 ! i ! m ! p * vals v2 ! i ! m ! q) [0..<shape1 v1]))
                      [0..<shape2 v2]) [0..<shape2 v1]) [0..<n]\<rparr>"
    using m matmul_swapped_3_3[OF wf sh] by simp
  have "scale3 factor product = \<lparr>shape0 = n, shape1 = shape2 v1, shape2 = shape2 v2,
              vals = map (\<lambda>i. map (\<lambda>p. map (\<lambda>q. invariant_entry factor v1 v2 i p q)
                      [0..<shape2 v2]) [0..<shape2 v1]) [0..<n]\<rparr>"
    by (simp add: p scale3_def invariant_entry_def interv_sum_list_conv_sum_set_nat
        atLeast0LessThan comp_def)
  then show ?thesis using reshape_3_to_2_flat2[OF n] by simp
qed

lemma py_factor_Inr: "py_factor ell = Inr factor \<Longrightarrow> factor = 1 / sqrt (real_of_int (2 * ell + 1))"
  by (auto simp: py_factor_def split: if_splits)

lemma block_properties_flat2:
  "rows (block_properties p1 p2) = flat2 (\<lambda>i j. rows p1 ! i @ rows p2 ! j) (len p1) (len p2)"
proof -
  have "map (\<lambda>r1. map (\<lambda>r2. r1 @ r2) (rows p2)) (rows p1)
      = map (\<lambda>i. map (\<lambda>j. rows p1 ! i @ rows p2 ! j) [0..<len p2]) [0..<len p1]"
    by (intro nth_equalityI) (auto simp: len_def)
  then show ?thesis by (simp add: block_properties_def flat2_def)
qed

lemma len_block_properties [simp]: "len (block_properties p1 p2) = len p1 * len p2"
  using block_properties_flat2[of p1 p2] length_flat2 by (simp add: len_def)

lemma compute_block_values:
  assumes wf: "wf_block block_1" "wf_block block_2"
    and c: "compute_block factor block_1 block_2 = Inr new_block"
  shows "0 < len (samples block_1)"
    and "shape1 (values' block_2) = shape1 (values' block_1)"
    and "values' new_block =
           \<lparr>nrows = len (samples block_1),
            ncols = len (properties block_1) * len (properties block_2),
            vals2 = map (\<lambda>i. flat2 (invariant_entry factor (values' block_1) (values' block_2) i)
                            (len (properties block_1)) (len (properties block_2)))
                      [0..<len (samples block_1)]\<rparr>"
proof -
  let ?v1 = "values' block_1" and ?v2 = "values' block_2" and ?n = "len (samples block_1)"
  from compute_block_fields[OF c] obtain product where
    s: "samples block_1 = samples block_2" and
    m: "matmul_3_3 (swapaxes_1_2 ?v1) ?v2 = Inr product" and
    r: "reshape_3_to_2 (scale3 factor product) = Inr (values' new_block)"
    by blast
  have wf3: "wf3 ?v1" "wf3 ?v2" and sh: "shape0 ?v1 = ?n" "shape0 ?v2 = ?n"
    and pq: "shape2 ?v1 = len (properties block_1)" "shape2 ?v2 = len (properties block_2)"
    using wf s by (simp_all add: wf_block_def)
  show core: "shape1 ?v2 = shape1 ?v1"
    using m by (auto simp: matmul_3_3_def swapaxes_1_2_def split: if_splits)
  have p0: "shape0 product = ?n"
    using m matmul_swapped_3_3[OF wf3 sh core] by auto
  show n: "0 < ?n"
  proof (rule ccontr)
    assume "\<not> 0 < ?n"
    then have "shape0 (scale3 factor product) = 0" using p0 by (simp add: scale3_def)
    from reshape_3_to_2_zero[OF this] r show False by simp
  qed
  show "values' new_block =
           \<lparr>nrows = ?n, ncols = len (properties block_1) * len (properties block_2),
            vals2 = map (\<lambda>i. flat2 (invariant_entry factor ?v1 ?v2 i)
                            (len (properties block_1)) (len (properties block_2))) [0..<?n]\<rparr>"
    using block_values[OF wf3 sh core n m, of factor] r pq by simp
qed

lemma new_block_constructed:
  assumes "wf_block block_1" "wf_block block_2"
  shows "TensorBlock shape_2
           \<lparr>nrows = len (samples block_1),
            ncols = shape2 (values' block_1) * shape2 (values' block_2), vals2 = rs\<rparr>
           (samples block_1) [] (block_properties (properties block_1) (properties block_2)) =
         Inr \<lparr>values' = \<lparr>nrows = len (samples block_1),
                           ncols = shape2 (values' block_1) * shape2 (values' block_2), vals2 = rs\<rparr>,
              samples = samples block_1, components = [],
              properties = block_properties (properties block_1) (properties block_2)\<rparr>"
  using assms by (simp add: TensorBlock_def shape_2_def wf_block_def)

lemma compute_block_returns:
  assumes wf: "wf_block block_1" "wf_block block_2"
    and s: "samples block_1 = samples block_2"
    and n: "0 < len (samples block_1)"
    and core: "shape1 (values' block_2) = shape1 (values' block_1)"
    and g: "gradients block_1 = []"
  shows "\<exists>new_block. compute_block factor block_1 block_2 = Inr new_block"
proof -
  let ?v1 = "values' block_1" and ?v2 = "values' block_2" and ?n = "len (samples block_1)"
  have wf3: "wf3 ?v1" "wf3 ?v2" and sh: "shape0 ?v1 = ?n" "shape0 ?v2 = ?n"
    using wf s by (simp_all add: wf_block_def)
  obtain product where m: "matmul_3_3 (swapaxes_1_2 ?v1) ?v2 = Inr product"
    using matmul_swapped_3_3[OF wf3 sh core] by blast
  show ?thesis
    using s g m block_values[OF wf3 sh core n m, of factor] new_block_constructed[OF wf]
    by (simp add: compute_block_def bind_def gradients_list_def)
qed

lemma ex_compute_block: "compute_block 1 ex_block_1 ex_block_2 = Inr ex_new_block"
  by code_simp

lemma ex_wf_blocks: "wf_block ex_block_1" "wf_block ex_block_2"
  by (simp_all add: wf_block_def ex_block_1_def ex_block_2_def ex_arr_1_def ex_arr_2_def
      wf3_def len_def ex_samples_def)

section \<open>Lemmas on the propagation of gradients\<close>

lemma index_of_less: "x \<in> set xs \<Longrightarrow> index_of x xs < length xs"
  by (induction xs) auto

lemma nth_index_of: "x \<in> set xs \<Longrightarrow> xs ! index_of x xs = x"
  by (induction xs) auto

lemma index_of_nth: "distinct xs \<Longrightarrow> j < length xs \<Longrightarrow> index_of (xs ! j) xs = j"
proof (induction xs arbitrary: j)
  case Nil
  then show ?case by simp
next
  case (Cons x xs)
  then show ?case by (cases j) auto
qed

lemma scatter_Cons: "scatter xs (i # idx) (y # ys) = scatter (xs[i := y]) idx ys"
  by (simp add: scatter_def)

lemma length_scatter [simp]: "length (scatter xs idx ys) = length xs"
proof (induction idx arbitrary: xs ys)
  case Nil
  then show ?case by (simp add: scatter_def)
next
  case (Cons i idx)
  show ?case
  proof (cases ys)
    case Nil
    then show ?thesis by (simp add: scatter_def)
  next
    case (Cons y ys')
    then show ?thesis using Cons.IH by (simp add: scatter_Cons)
  qed
qed

lemma scatter_nth:
  "length ys = length idx \<Longrightarrow> distinct idx \<Longrightarrow> u < length xs \<Longrightarrow>
     scatter xs idx ys ! u = (if u \<in> set idx then ys ! index_of u idx else xs ! u)"
proof (induction idx arbitrary: xs ys)
  case Nil
  then show ?case by (simp add: scatter_def)
next
  case (Cons i idx)
  then obtain y ys' where ys: "ys = y # ys'" by (cases ys) auto
  have "scatter (xs[i := y]) idx ys' ! u =
          (if u \<in> set idx then ys' ! index_of u idx else (xs[i := y]) ! u)"
    using Cons.prems ys by (intro Cons.IH) auto
  then show ?case
    using Cons.prems ys by (auto simp: scatter_Cons)
qed

lemma sum_list_delta_index:
  fixes e :: "nat \<Rightarrow> real"
  assumes "distinct idx"
  shows "sum_list (map (\<lambda>j. if idx ! j = u then e j else 0) [0..<length idx]) =
           (if u \<in> set idx then e (index_of u idx) else 0)"
proof (cases "u \<in> set idx")
  case False
  have "sum_list (map (\<lambda>j. if idx ! j = u then e j else 0) [0..<length idx]) =
        (\<Sum>j<length idx. if idx ! j = u then e j else 0)"
    by (simp add: interv_sum_list_conv_sum_set_nat atLeast0LessThan)
  also have "\<dots> = 0" using False by (intro sum.neutral) auto
  finally show ?thesis using False by simp
next
  case True
  let ?j0 = "index_of u idx"
  have j0: "?j0 < length idx" "idx ! ?j0 = u"
    using True by (simp_all add: index_of_less nth_index_of)
  have "(if idx ! j = u then e j else 0) = (if j = ?j0 then e j else 0)" if "j < length idx" for j
    using that j0 assms by (auto simp: nth_eq_iff_index_eq)
  then have "sum_list (map (\<lambda>j. if idx ! j = u then e j else 0) [0..<length idx]) =
        (\<Sum>j<length idx. if j = ?j0 then e j else 0)"
    by (simp add: interv_sum_list_conv_sum_set_nat atLeast0LessThan)
  also have "\<dots> = e ?j0" using j0 by (simp add: sum.delta)
  finally show ?thesis using True by simp
qed

lemma map_add_nth:
  fixes xs ys :: "real list"
  shows "length xs = n \<Longrightarrow> length ys = n \<Longrightarrow> map (\<lambda>c. xs ! c + ys ! c) [0..<n] = map2 (+) xs ys"
  by (intro nth_equalityI) auto

lemma fancy_iadd_tab3:
  assumes a: "vals a = tab3 f nU X P Q" "shape0 a = nU" "shape1 a = X" "shape2 a = P * Q"
    and r: "vals r = tab3 e k X P Q" "shape0 r = k" "shape1 r = X" "shape2 r = P * Q"
    and idx: "length idx = k" "distinct idx" "list_all (\<lambda>i. i < nU) idx"
  shows "fancy_iadd a idx r =
           Inr (a\<lparr>vals := tab3 (\<lambda>u x p q. f u x p q
                   + sum_list (map (\<lambda>j. if idx ! j = u then e j x p q else 0) [0..<k])) nU X P Q\<rparr>)"
proof -
  let ?ys = "map (\<lambda>j. map (\<lambda>x. map (\<lambda>c.
                vals a ! (idx ! j) ! x ! c
                + vals r ! bidx (shape0 r) j ! bidx (shape1 r) x ! bidx (shape2 r) c)
              [0..<shape2 a]) [0..<shape1 a]) [0..<length idx]"
  have ys: "?ys = map (\<lambda>j. map (\<lambda>x. flat2 (\<lambda>p q. f (idx ! j) x p q + e j x p q) P Q) [0..<X]) [0..<k]"
  proof -
    have "map (\<lambda>c. vals a ! (idx ! j) ! x ! c
                + vals r ! bidx (shape0 r) j ! bidx (shape1 r) x ! bidx (shape2 r) c) [0..<P * Q]
        = flat2 (\<lambda>p q. f (idx ! j) x p q + e j x p q) P Q"
      if "j < k" "x < X" for j x
    proof -
      have i: "idx ! j < nU" using idx that by (simp add: list_all_length)
      have "map (\<lambda>c. vals a ! (idx ! j) ! x ! c
                + vals r ! bidx (shape0 r) j ! bidx (shape1 r) x ! bidx (shape2 r) c) [0..<P * Q]
          = map (\<lambda>c. flat2 (f (idx ! j) x) P Q ! c + flat2 (e j x) P Q ! c) [0..<P * Q]"
        using that i by (intro map_cong refl) (simp add: a r tab3_def bidx_id)
      also have "\<dots> = map2 (+) (flat2 (f (idx ! j) x) P Q) (flat2 (e j x) P Q)"
        by (rule map_add_nth) simp_all
      finally show ?thesis by (simp add: map2_flat2)
    qed
    then show ?thesis by (simp add: a idx cong: map_cong)
  qed
  have "scatter (vals a) idx ?ys =
          tab3 (\<lambda>u x p q. f u x p q
                   + sum_list (map (\<lambda>j. if idx ! j = u then e j x p q else 0) [0..<k])) nU X P Q"
  proof (rule nth_equalityI)
    show "length (scatter (vals a) idx ?ys) = length (tab3 (\<lambda>u x p q. f u x p q
                   + sum_list (map (\<lambda>j. if idx ! j = u then e j x p q else 0) [0..<k])) nU X P Q)"
      by (simp add: a tab3_def)
  next
    fix u assume "u < length (scatter (vals a) idx ?ys)"
    then have u: "u < nU" by (simp add: a tab3_def)
    have s: "scatter (vals a) idx ?ys ! u = (if u \<in> set idx then ?ys ! index_of u idx else vals a ! u)"
      using u by (intro scatter_nth) (simp_all add: idx a tab3_def)
    have d: "sum_list (map (\<lambda>j. if idx ! j = u then e j x p q else 0) [0..<k]) =
           (if u \<in> set idx then e (index_of u idx) x p q else 0)" for x p q
      using sum_list_delta_index[OF idx(2), of u "\<lambda>j. e j x p q"] idx(1) by simp
    show "scatter (vals a) idx ?ys ! u = tab3 (\<lambda>u x p q. f u x p q
                   + sum_list (map (\<lambda>j. if idx ! j = u then e j x p q else 0) [0..<k])) nU X P Q ! u"
    proof (cases "u \<in> set idx")
      case True
      then have "index_of u idx < k" "idx ! index_of u idx = u"
        using idx(1) index_of_less[of u idx] nth_index_of[of u idx] by simp_all
      then show ?thesis
        using s True u unfolding ys by (simp add: tab3_def d)
    next
      case False
      then show ?thesis
        using s u by (simp add: a tab3_def d)
    qed
  qed
  then show ?thesis
    using idx a r by (simp add: fancy_iadd_def fits_def)
qed

lemma column_sample:
  "''sample'' \<in> set (names l) \<Longrightarrow>
     column l ''sample'' = Inr (map (\<lambda>r. r ! index_of ''sample'' (names l)) (rows l))"
  by (simp add: column_def)

lemma np_take_in_range:
  "list_all (\<lambda>i. 0 \<le> i \<and> i < int n) idx \<Longrightarrow> np_take xs n idx = Inr (map (\<lambda>i. xs ! nat i) idx)"
  by (induction idx) (auto simp: np_index_def)

lemma wf4_nth:
  assumes "wf4 a" "j < dim0 a"
  shows "length (vals4 a ! j) = dim1 a"
    and "x < dim1 a \<Longrightarrow> length (vals4 a ! j ! x) = dim2 a"
    and "x < dim1 a \<Longrightarrow> m < dim2 a \<Longrightarrow> length (vals4 a ! j ! x ! m) = dim3 a"
  using assms by (auto simp: wf4_def list_all_length)

lemma reshape_4_to_3_tab3:
  assumes "0 < k"
  shows "reshape_4_to_3
           \<lparr>dim0 = k, dim1 = 3, dim2 = P, dim3 = Q,
            vals4 = map (\<lambda>j. map (\<lambda>d. map (\<lambda>p. map (\<lambda>q. e j d p q) [0..<Q]) [0..<P]) [0..<3]) [0..<k]\<rparr> k
         = Inr \<lparr>shape0 = k, shape1 = 3, shape2 = P * Q, vals = tab3 e k 3 P Q\<rparr>"
proof -
  let ?T = "map (\<lambda>j. map (\<lambda>d. flat2 (e j d) P Q) [0..<3]) [0..<k]"
  let ?W = "concat ?T"
  have flat: "concat (concat (concat
      (map (\<lambda>j. map (\<lambda>d. map (\<lambda>p. map (\<lambda>q. e j d p q) [0..<Q]) [0..<P]) [0..<3]) [0..<k])))
      = concat ?W"
    unfolding flat2_def by (simp only: concat_concat map_concat map_map comp_def)
  have lenW: "length ?W = k * 3"
    by (subst length_concat_uniform[where c = 3]) auto
  have rows: "\<And>x. x \<in> set ?W \<Longrightarrow> length x = P * Q"
    by auto
  have len: "length (concat ?W) = k * 3 * (P * Q)"
    using length_concat_uniform[of ?W "P * Q"] rows lenW by simp
  have 1: "split_rows (k * 3) (P * Q) (concat ?W) = ?W"
    using lenW rows by (intro split_rows_concat) auto
  have 2: "split_rows k 3 ?W = ?T"
    by (intro split_rows_concat) auto
  have d: "k * 3 * (P * Q) div (k * 3) = P * Q" "k * 3 * (P * Q) mod (k * 3) = 0"
    using assms by simp_all
  have pos: "k * 3 \<noteq> 0" using assms by simp
  show ?thesis
    unfolding reshape_4_to_3_def
    by (simp only: ndarray4.simps flat len d 1 2 Let_def pos tab3_def if_False simp_thms)
qed

lemma tab3_eq_map:
  "tab3 e k X P Q = map (\<lambda>j. map (\<lambda>d. flat2 (e j d) P Q) [0..<X]) [0..<k]"
  by (simp add: tab3_def)

lemma broadcast_dim_3_1 [simp]: "broadcast_dim 3 (Suc 0) = Some 3" "broadcast_dim (Suc 0) 3 = Some 3"
  by (simp_all add: broadcast_dim_def)

lemma bidx_simps [simp]: "bidx (Suc 0) d = 0" "bidx 3 d = d"
  by (simp_all add: bidx_def)

lemma swapaxes_2_3_dims [simp]:
  "dim0 (swapaxes_2_3 a) = dim0 a" "dim1 (swapaxes_2_3 a) = dim1 a"
  "dim2 (swapaxes_2_3 a) = dim3 a" "dim3 (swapaxes_2_3 a) = dim2 a"
  by (simp_all add: swapaxes_2_3_def)

lemma first_term:
  assumes wfg: "wf4 (values' g1)"
    and dg: "dim0 (values' g1) = k" "dim1 (values' g1) = 3" "dim2 (values' g1) = M" "dim3 (values' g1) = P"
    and wfv: "wf3 v2" and dv: "shape0 v2 = n" "shape1 v2 = M" "shape2 v2 = Q"
    and k: "0 < k" "length (rows (samples g1)) = k"
    and rng: "list_all (\<lambda>r. 0 \<le> r ! index_of ''sample'' (names (samples g1)) \<and>
                    r ! index_of ''sample'' (names (samples g1)) < int n) (rows (samples g1))"
  shows "bind (take_newaxis v2 (map (\<lambda>r. r ! index_of ''sample'' (names (samples g1))) (rows (samples g1))))
           (\<lambda>values_2. bind (matmul_4_4 (swapaxes_2_3 (values' g1)) values_2)
           (\<lambda>product_1. reshape_4_to_3 (scale4 factor product_1) k))
         = Inr \<lparr>shape0 = k, shape1 = 3, shape2 = P * Q,
                vals = tab3 (gradient_term_1 factor g1 v2) k 3 P Q\<rparr>"
proof -
  let ?col = "map (\<lambda>r. r ! index_of ''sample'' (names (samples g1))) (rows (samples g1))"
  let ?G = "values' g1"
  let ?taken = "map (\<lambda>r. [vals v2 ! nat (r ! index_of ''sample'' (names (samples g1)))])
                  (rows (samples g1))"
  have rng': "list_all (\<lambda>i. 0 \<le> i \<and> i < int n) ?col"
    using rng by (simp add: list_all_iff)
  have t: "take_newaxis v2 ?col =
      Inr \<lparr>dim0 = k, dim1 = 1, dim2 = M, dim3 = Q,
           vals4 = ?taken\<rparr>"
    using k by (simp add: take_newaxis_def np_take_in_range[OF rng'] dv)
  have cell: "matmul2 (vals4 (swapaxes_2_3 ?G) ! j ! d)
                (?taken ! j ! 0) Q
            = map (\<lambda>p. map (\<lambda>q. sum_list (map (\<lambda>m.
                  vals4 ?G ! j ! d ! m ! p * vals v2 ! sample_of g1 j ! m ! q) [0..<M])) [0..<Q]) [0..<P]"
    if "j < k" "d < 3" for j d
  proof -
    have s: "nat (?col ! j) < n" "?col ! j = rows (samples g1) ! j ! index_of ''sample'' (names (samples g1))"
      using rng that k by (auto simp: list_all_length)
    have "vals4 (swapaxes_2_3 ?G) ! j ! d =
            map (\<lambda>p. map (\<lambda>m. vals4 ?G ! j ! d ! m ! p) [0..<M]) [0..<P]"
      using that wfg dg wf4_nth(1)[OF wfg, of j] by (simp add: swapaxes_2_3_def wf4_def)
    moreover have "?taken ! j ! 0 = vals v2 ! sample_of g1 j"
      using that k by (simp add: sample_of_def)
    moreover have "length (vals v2 ! sample_of g1 j) = M"
      using wf3_row[OF wfv, of "sample_of g1 j"] s dv by (simp add: sample_of_def)
    ultimately show ?thesis by (simp add: matmul2_swapped)
  qed
  have m: "matmul_4_4 (swapaxes_2_3 ?G)
             \<lparr>dim0 = k, dim1 = 1, dim2 = M, dim3 = Q,
              vals4 = ?taken\<rparr>
        = Inr \<lparr>dim0 = k, dim1 = 3, dim2 = P, dim3 = Q,
               vals4 = map (\<lambda>j. map (\<lambda>d. map (\<lambda>p. map (\<lambda>q. sum_list (map (\<lambda>m.
                  vals4 ?G ! j ! d ! m ! p * vals v2 ! sample_of g1 j ! m ! q) [0..<M])) [0..<Q]) [0..<P])
                  [0..<3]) [0..<k]\<rparr>"
    unfolding matmul_4_4_def
    by (simp add: dg bidx_id cell cong: map_cong)
  have sc: "scale4 factor \<lparr>dim0 = k, dim1 = 3, dim2 = P, dim3 = Q,
               vals4 = map (\<lambda>j. map (\<lambda>d. map (\<lambda>p. map (\<lambda>q. sum_list (map (\<lambda>m.
                  vals4 ?G ! j ! d ! m ! p * vals v2 ! sample_of g1 j ! m ! q) [0..<M])) [0..<Q]) [0..<P])
                  [0..<3]) [0..<k]\<rparr>
        = \<lparr>dim0 = k, dim1 = 3, dim2 = P, dim3 = Q,
               vals4 = map (\<lambda>j. map (\<lambda>d. map (\<lambda>p. map (\<lambda>q. gradient_term_1 factor g1 v2 j d p q)
                  [0..<Q]) [0..<P]) [0..<3]) [0..<k]\<rparr>"
    by (simp add: scale4_def gradient_term_1_def dg interv_sum_list_conv_sum_set_nat
        atLeast0LessThan comp_def del: upt_Suc)
  show ?thesis
    by (simp only: t m sc bind_def sum.case reshape_4_to_3_tab3[OF k(1)])
qed

lemma second_term:
  assumes wfg: "wf4 (values' g2)"
    and dg: "dim0 (values' g2) = k" "dim1 (values' g2) = 3" "dim2 (values' g2) = M" "dim3 (values' g2) = Q"
    and wfv: "wf3 v1" and dv: "shape0 v1 = n" "shape1 v1 = M" "shape2 v1 = P"
    and k: "0 < k" "length (rows (samples g2)) = k"
    and rng: "list_all (\<lambda>r. 0 \<le> r ! index_of ''sample'' (names (samples g2)) \<and>
                    r ! index_of ''sample'' (names (samples g2)) < int n) (rows (samples g2))"
  shows "bind (take_newaxis v1 (map (\<lambda>r. r ! index_of ''sample'' (names (samples g2))) (rows (samples g2))))
           (\<lambda>values_1. bind (matmul_4_4 (swapaxes_2_3 values_1) (values' g2))
           (\<lambda>product_2. reshape_4_to_3 (scale4 factor product_2) k))
         = Inr \<lparr>shape0 = k, shape1 = 3, shape2 = P * Q,
                vals = tab3 (gradient_term_2 factor v1 g2) k 3 P Q\<rparr>"
proof -
  let ?col = "map (\<lambda>r. r ! index_of ''sample'' (names (samples g2))) (rows (samples g2))"
  let ?G = "values' g2"
  define T where "T = \<lparr>dim0 = k, dim1 = 1, dim2 = M, dim3 = P,
      vals4 = map (\<lambda>r. [vals v1 ! nat (r ! index_of ''sample'' (names (samples g2)))])
                  (rows (samples g2))\<rparr>"
  have dT: "dim0 T = k" "dim1 T = Suc 0" "dim2 T = M" "dim3 T = P"
    by (simp_all add: T_def)
  have rng': "list_all (\<lambda>i. 0 \<le> i \<and> i < int n) ?col"
    using rng by (simp add: list_all_iff)
  have t: "take_newaxis v1 ?col = Inr T"
    using k by (simp add: take_newaxis_def np_take_in_range[OF rng'] dv T_def)
  have cell: "matmul2 (vals4 (swapaxes_2_3 T) ! j ! 0) (vals4 ?G ! j ! d) Q
            = map (\<lambda>p. map (\<lambda>q. sum_list (map (\<lambda>m.
                  vals v1 ! sample_of g2 j ! m ! p * vals4 ?G ! j ! d ! m ! q) [0..<M])) [0..<Q]) [0..<P]"
    if "j < k" "d < 3" for j d
  proof -
    have "vals4 (swapaxes_2_3 T) ! j ! 0 =
            map (\<lambda>p. map (\<lambda>m. vals v1 ! sample_of g2 j ! m ! p) [0..<M]) [0..<P]"
      using that k by (simp add: swapaxes_2_3_def sample_of_def T_def)
    moreover have "length (vals4 ?G ! j ! d) = M"
      using wf4_nth(2)[OF wfg, of j d] that dg by simp
    ultimately show ?thesis by (simp add: matmul2_swapped)
  qed
  have m: "matmul_4_4 (swapaxes_2_3 T) ?G
        = Inr \<lparr>dim0 = k, dim1 = 3, dim2 = P, dim3 = Q,
               vals4 = map (\<lambda>j. map (\<lambda>d. map (\<lambda>p. map (\<lambda>q. sum_list (map (\<lambda>m.
                  vals v1 ! sample_of g2 j ! m ! p * vals4 ?G ! j ! d ! m ! q) [0..<M])) [0..<Q]) [0..<P])
                  [0..<3]) [0..<k]\<rparr>"
    unfolding matmul_4_4_def
    by (simp add: dT dg bidx_id cell cong: map_cong)
  have sc: "scale4 factor \<lparr>dim0 = k, dim1 = 3, dim2 = P, dim3 = Q,
               vals4 = map (\<lambda>j. map (\<lambda>d. map (\<lambda>p. map (\<lambda>q. sum_list (map (\<lambda>m.
                  vals v1 ! sample_of g2 j ! m ! p * vals4 ?G ! j ! d ! m ! q) [0..<M])) [0..<Q]) [0..<P])
                  [0..<3]) [0..<k]\<rparr>
        = \<lparr>dim0 = k, dim1 = 3, dim2 = P, dim3 = Q,
               vals4 = map (\<lambda>j. map (\<lambda>d. map (\<lambda>p. map (\<lambda>q. gradient_term_2 factor v1 g2 j d p q)
                  [0..<Q]) [0..<P]) [0..<3]) [0..<k]\<rparr>"
    by (simp add: scale4_def gradient_term_2_def dg interv_sum_list_conv_sum_set_nat
        atLeast0LessThan comp_def del: upt_Suc)
  show ?thesis
    by (simp only: t m sc bind_def sum.case reshape_4_to_3_tab3[OF k(1)])
qed

lemma union_and_mapping_facts:
  assumes "union_and_mapping s1 s2 = (u, idx_1, idx_2)"
  shows "names u = names s1"
    and "rows u = rev (remdups (rev (rows s1 @ rows s2)))"
    and "distinct (rows u)"
    and "set (rows u) = set (rows s1) \<union> set (rows s2)"
    and "length idx_1 = len s1" and "length idx_2 = len s2"
    and "list_all (\<lambda>i. i < len u) idx_1" and "list_all (\<lambda>i. i < len u) idx_2"
    and "distinct (rows s1) \<Longrightarrow> distinct idx_1" and "distinct (rows s2) \<Longrightarrow> distinct idx_2"
    and "\<And>j. j < len s1 \<Longrightarrow> rows u ! (idx_1 ! j) = rows s1 ! j"
    and "\<And>j. j < len s2 \<Longrightarrow> rows u ! (idx_2 ! j) = rows s2 ! j"
proof -
  define U where "U = rev (remdups (rev (rows s1 @ rows s2)))"
  from assms have u: "u = \<lparr>names = names s1, rows = U\<rparr>"
    and i1: "idx_1 = map (\<lambda>r. index_of r U) (rows s1)"
    and i2: "idx_2 = map (\<lambda>r. index_of r U) (rows s2)"
    by (auto simp: union_and_mapping_def Let_def U_def)
  have dU: "distinct U" and sU: "set U = set (rows s1) \<union> set (rows s2)"
    by (auto simp: U_def)
  show "names u = names s1" "rows u = rev (remdups (rev (rows s1 @ rows s2)))"
    by (simp_all add: u U_def)
  show "distinct (rows u)" by (simp add: u dU)
  show "set (rows u) = set (rows s1) \<union> set (rows s2)" by (simp add: u sU)
  show "length idx_1 = len s1" "length idx_2 = len s2" by (simp_all add: i1 i2 len_def)
  have inj: "inj_on (\<lambda>r. index_of r U) (set U)"
    by (rule inj_onI) (metis nth_index_of)
  have in1: "r \<in> set U" if "r \<in> set (rows s1)" for r using that sU by simp
  have in2: "r \<in> set U" if "r \<in> set (rows s2)" for r using that sU by simp
  show "list_all (\<lambda>i. i < len u) idx_1"
    using in1 by (simp add: i1 u len_def list_all_iff index_of_less)
  show "list_all (\<lambda>i. i < len u) idx_2"
    using in2 by (simp add: i2 u len_def list_all_iff index_of_less)
  show "distinct (rows s1) \<Longrightarrow> distinct idx_1"
    unfolding i1 using in1 by (auto simp: distinct_map intro!: inj_on_subset[OF inj])
  show "distinct (rows s2) \<Longrightarrow> distinct idx_2"
    unfolding i2 using in2 by (auto simp: distinct_map intro!: inj_on_subset[OF inj])
  show "\<And>j. j < len s1 \<Longrightarrow> rows u ! (idx_1 ! j) = rows s1 ! j"
    using in1 by (simp add: i1 u len_def nth_index_of)
  show "\<And>j. j < len s2 \<Longrightarrow> rows u ! (idx_2 ! j) = rows s2 ! j"
    using in2 by (simp add: i2 u len_def nth_index_of)
qed

lemma bind_Inr_iff: "bind m f = Inr y \<longleftrightarrow> (\<exists>x. m = Inr x \<and> f x = Inr y)"
  by (cases m) (auto simp: bind_def)

lemma positions_gradients_product_rule:
  assumes g1: "gradient block_1 ''positions'' = Inr gradient_1"
    and g2: "gradient block_2 ''positions'' = Inr gradient_2"
    and wfb: "wf_block block_1" "wf_block block_2"
    and wfg: "wf_gradient gradient_1 block_1" "wf_gradient gradient_2 block_2"
    and sh: "shape0 (values' block_1) = shape0 (values' block_2)"
            "shape1 (values' block_2) = shape1 (values' block_1)"
    and ne: "0 < len (samples gradient_1)" "0 < len (samples gradient_2)"
    and np: "len (properties new_block) = shape2 (values' block_1) * shape2 (values' block_2)"
    and fresh: "''positions'' \<notin> set (gradients_list new_block)"
  shows "positions_gradients new_block block_1 block_2 factor =
           Inr (new_block\<lparr>gradients := gradients new_block @
              [(''positions'',
                \<lparr>values' = product_rule_gradient factor block_1 block_2 gradient_1 gradient_2,
                 samples = fst (union_and_mapping (samples gradient_1) (samples gradient_2)),
                 components = [hd (components gradient_1)],
                 properties = properties new_block\<rparr>)]\<rparr>)"
proof -
  let ?v1 = "values' block_1" and ?v2 = "values' block_2"
  let ?P = "shape2 ?v1" and ?Q = "shape2 ?v2" and ?M = "shape1 ?v1" and ?n = "shape0 ?v1"
  let ?k1 = "len (samples gradient_1)" and ?k2 = "len (samples gradient_2)"
  obtain u idx_1 idx_2 where um: "union_and_mapping (samples gradient_1) (samples gradient_2) = (u, idx_1, idx_2)"
    by (cases "union_and_mapping (samples gradient_1) (samples gradient_2)") auto
  note uf = union_and_mapping_facts[OF um]
  have d1: "distinct idx_1" and d2: "distinct idx_2"
    using uf(9,10) wfg by (simp_all add: wf_gradient_def)
  have c1: "column (samples gradient_1) ''sample'' =
      Inr (map (\<lambda>r. r ! index_of ''sample'' (names (samples gradient_1))) (rows (samples gradient_1)))"
    and c2: "column (samples gradient_2) ''sample'' =
      Inr (map (\<lambda>r. r ! index_of ''sample'' (names (samples gradient_2))) (rows (samples gradient_2)))"
    using wfg by (simp_all add: wf_gradient_def column_sample)
  let ?R1 = "\<lparr>shape0 = ?k1, shape1 = 3, shape2 = ?P * ?Q,
                vals = tab3 (gradient_term_1 factor gradient_1 ?v2) ?k1 3 ?P ?Q\<rparr>"
  let ?R2 = "\<lparr>shape0 = ?k2, shape1 = 3, shape2 = ?P * ?Q,
                vals = tab3 (gradient_term_2 factor ?v1 gradient_2) ?k2 3 ?P ?Q\<rparr>"
  have "bind (take_newaxis ?v2 (map (\<lambda>r. r ! index_of ''sample'' (names (samples gradient_1))) (rows (samples gradient_1))))
           (\<lambda>values_2. bind (matmul_4_4 (swapaxes_2_3 (values' gradient_1)) values_2)
           (\<lambda>product_1. reshape_4_to_3 (scale4 factor product_1) ?k1)) = Inr ?R1"
    using wfb wfg sh ne
    by (intro first_term[where n = ?n and M = ?M]) (simp_all add: wf_block_def wf_gradient_def len_def)
  then obtain values_2 product_1 where
    t1: "take_newaxis ?v2 (map (\<lambda>r. r ! index_of ''sample'' (names (samples gradient_1))) (rows (samples gradient_1))) = Inr values_2"
    and m1: "matmul_4_4 (swapaxes_2_3 (values' gradient_1)) values_2 = Inr product_1"
    and r1: "reshape_4_to_3 (scale4 factor product_1) (length (rows (samples gradient_1))) = Inr ?R1"
    by (auto simp: bind_Inr_iff len_def)
  have "bind (take_newaxis ?v1 (map (\<lambda>r. r ! index_of ''sample'' (names (samples gradient_2))) (rows (samples gradient_2))))
           (\<lambda>values_1. bind (matmul_4_4 (swapaxes_2_3 values_1) (values' gradient_2))
           (\<lambda>product_2. reshape_4_to_3 (scale4 factor product_2) ?k2)) = Inr ?R2"
    using wfb wfg sh ne
    by (intro second_term[where n = ?n and M = ?M]) (simp_all add: wf_block_def wf_gradient_def len_def)
  then obtain values_1 product_2 where
    t2: "take_newaxis ?v1 (map (\<lambda>r. r ! index_of ''sample'' (names (samples gradient_2))) (rows (samples gradient_2))) = Inr values_1"
    and m2: "matmul_4_4 (swapaxes_2_3 values_1) (values' gradient_2) = Inr product_2"
    and r2: "reshape_4_to_3 (scale4 factor product_2) (length (rows (samples gradient_2))) = Inr ?R2"
    by (auto simp: bind_Inr_iff len_def)
  let ?z = "zeros3 (length (rows u)) 3 (len (properties new_block))"
  let ?f1 = "\<lambda>r x p q. sum_list (map (\<lambda>j. if idx_1 ! j = r
                then gradient_term_1 factor gradient_1 ?v2 j x p q else 0) [0..<?k1])"
  let ?A1 = "?z\<lparr>vals := tab3 ?f1 (len u) 3 ?P ?Q\<rparr>"
  have zv: "vals ?z = tab3 (\<lambda>r x p q. 0) (len u) 3 ?P ?Q"
    unfolding np by (simp add: zeros3_tab3 len_def)
  have zs: "shape0 ?z = len u" "shape1 ?z = 3" "shape2 ?z = ?P * ?Q"
    by (simp_all add: zeros3_def np[unfolded len_def] len_def)
  have a1: "fancy_iadd ?z idx_1 ?R1 = Inr ?A1"
    using fancy_iadd_tab3[OF zv zs, of ?R1 "gradient_term_1 factor gradient_1 ?v2" ?k1 idx_1]
      uf(5,7) d1 by simp
  let ?f2 = "\<lambda>r x p q. ?f1 r x p q + sum_list (map (\<lambda>j. if idx_2 ! j = r
                then gradient_term_2 factor ?v1 gradient_2 j x p q else 0) [0..<?k2])"
  have a2: "fancy_iadd ?A1 idx_2 ?R2 = Inr (?A1\<lparr>vals := tab3 ?f2 (len u) 3 ?P ?Q\<rparr>)"
    using uf(6,8) d2 zs by (intro fancy_iadd_tab3) simp_all
  have fin: "?A1\<lparr>vals := tab3 ?f2 (len u) 3 ?P ?Q\<rparr>
      = product_rule_gradient factor block_1 block_2 gradient_1 gradient_2"
    by (simp add: product_rule_gradient_def um zeros3_def np[unfolded len_def] len_def
        interv_sum_list_conv_sum_set_nat atLeast0LessThan)
  have arrays: "gradient_samples_and_values new_block block_1 block_2 gradient_1 gradient_2 factor =
      Inr (u, product_rule_gradient factor block_1 block_2 gradient_1 gradient_2)"
    using ne
    by (simp add: gradient_samples_and_values_def bind_def um c1 c2 t1 m1 r1 t2 m2 r2 a1 a2 fin
        Let_def)
  obtain c cs where comp: "components gradient_1 = c # cs" and c3: "len c = 3"
    using wfg(1) by (cases "components gradient_1") (auto simp: wf_gradient_def)
  have sh3: "shape_3 (product_rule_gradient factor block_1 block_2 gradient_1 gradient_2) =
      [len u, 3, ?P * ?Q]"
    by (simp add: product_rule_gradient_def um shape_3_def)
  have tb: "TensorBlock shape_3 (product_rule_gradient factor block_1 block_2 gradient_1 gradient_2)
              u [c] (properties new_block) =
            Inr \<lparr>values' = product_rule_gradient factor block_1 block_2 gradient_1 gradient_2,
                 samples = u, components = [c], properties = properties new_block\<rparr>"
    by (simp add: TensorBlock_def sh3 c3 np)
  show ?thesis
    using fresh
    by (simp add: positions_gradients_def g1 g2 bind_def arrays comp tb add_gradient_def um)
qed

lemma positions_gradients_empty_side:
  assumes "gradient block_1 ''positions'' = Inr gradient_1"
    and "gradient block_2 ''positions'' = Inr gradient_2"
    and "len (samples gradient_1) = 0 \<or> len (samples gradient_2) = 0"
    and "wf_gradient gradient_1 block_1"
  shows "gradient_samples_and_values new_block block_1 block_2 gradient_1 gradient_2 factor =
           Inr (Labels_empty [''sample'', ''structure'', ''atom''],
                \<lparr>shape0 = 0, shape1 = 1, shape2 = len (properties new_block), vals = []\<rparr>)"
    and "positions_gradients new_block block_1 block_2 factor = Inl (EquistoreError SHAPE_MISMATCH)"
proof -
  obtain c cs where comp: "components gradient_1 = c # cs" and c3: "len c = 3"
    using assms(4) by (cases "components gradient_1") (auto simp: wf_gradient_def)
  show arrays: "gradient_samples_and_values new_block block_1 block_2 gradient_1 gradient_2 factor =
           Inr (Labels_empty [''sample'', ''structure'', ''atom''],
                \<lparr>shape0 = 0, shape1 = 1, shape2 = len (properties new_block), vals = []\<rparr>)"
    using assms(3) by (auto simp: gradient_samples_and_values_def)
  show "positions_gradients new_block block_1 block_2 factor = Inl (EquistoreError SHAPE_MISMATCH)"
    by (simp add: positions_gradients_def assms(1,2) bind_def arrays comp TensorBlock_def
        shape_3_def c3)
qed

lemma bind_Inr_right [simp]: "bind m Inr = m"
  by (cases m) (simp_all add: bind_def)

lemma gradients_loop_positions:
  "distinct ps \<Longrightarrow>
     gradients_loop ps new_block block_1 block_2 factor =
       (if ''positions'' \<in> set ps then positions_gradients new_block block_1 block_2 factor
        else Inr new_block)"
proof (induction ps arbitrary: new_block)
  case Nil
  then show ?case by simp
next
  case (Cons parameter ps)
  show ?case
  proof (cases "parameter = ''positions''")
    case True
    with Cons.prems have "''positions'' \<notin> set ps" by simp
    then have "gradients_loop ps nb block_1 block_2 factor = Inr nb" for nb
      using Cons.IH[of nb] Cons.prems by simp
    then have "(\<lambda>nb. gradients_loop ps nb block_1 block_2 factor) = Inr"
      by (intro ext)
    with True show ?thesis by simp
  next
    case False
    with Cons show ?thesis by simp
  qed
qed

lemma gradient_Inr_member: "gradient b parameter = Inr g \<Longrightarrow> parameter \<in> set (gradients_list b)"
  by (auto simp: gradient_def gradients_list_def split: option.splits dest: map_of_SomeD
      intro: rev_image_eqI)

lemma ex_compute_block_g:
  "compute_block 1 ex_block_1g ex_block_2g =
     Inr (ex_new_block\<lparr>gradients := [(''positions'', ex_out_gradient)]\<rparr>)"
  by code_simp

lemma ex_wf_gradients:
  "wf_block ex_block_1g" "wf_block ex_block_2g"
  "wf_gradient ex_gradient_1 ex_block_1g" "wf_gradient ex_gradient_2 ex_block_2g"
  by code_simp+

lemma ex_wf_gradient_none:
  "wf_block ex_block_1n" "wf_gradient ex_gradient_none ex_block_1n"
  by code_simp+

section \<open>The loops of \<^verbatim>\<open>compute\<close>\<close>

text \<open>
  Every block that the two loops of \<^verbatim>\<open>compute\<close> collect is the result of the loop
  body on a matched pair: a block of the first spherical expansion with key
  \<open>(l, species_center)\<close>, a block of the second one selected by the same key
  entries, and \<open>factor = 1 / sqrt (2 l + 1)\<close>.
\<close>

lemma blocks_2_loop_results:
  "blocks_2_loop factor key block_1 blocks_2 acc = Inr acc' \<Longrightarrow>
     \<exists>new_blocks.
       list_all2 (\<lambda>block_2 new_block. compute_block factor block_1 block_2 = Inr new_block)
         blocks_2 new_blocks \<and>
       acc' = (fst acc @ replicate (length blocks_2) key, snd acc @ new_blocks)"
proof (induction blocks_2 arbitrary: acc)
  case Nil
  then show ?case by simp
next
  case (Cons block_2 blocks_2)
  from Cons.prems obtain new_block where
    c: "compute_block factor block_1 block_2 = Inr new_block" and
    l: "blocks_2_loop factor key block_1 blocks_2 (fst acc @ [key], snd acc @ [new_block]) = Inr acc'"
    by (auto simp: bind_Inr_iff)
  from Cons.IH[OF l] obtain new_blocks where
    "list_all2 (\<lambda>block_2 new_block. compute_block factor block_1 block_2 = Inr new_block)
         blocks_2 new_blocks"
    "acc' = ((fst acc @ [key]) @ replicate (length blocks_2) key, (snd acc @ [new_block]) @ new_blocks)"
    by auto
  with c show ?case
    by (intro exI[of _ "new_block # new_blocks"]) (simp add: replicate_app_Cons_same)
qed

lemma items_loop_blocks:
  "items_loop items spherical_expansion_2 acc = Inr acc' \<Longrightarrow>
     \<exists>new_blocks.
       snd acc' = snd acc @ new_blocks \<and>
       (\<forall>new_block \<in> set new_blocks.
          \<exists>ell species_center block_1 factor blocks_2 block_2.
            ([ell, species_center], block_1) \<in> set items \<and>
            py_factor ell = Inr factor \<and>
            blocks_selection spherical_expansion_2
              [(''spherical_harmonics_l'', ell), (''species_center'', species_center)] = Inr blocks_2 \<and>
            block_2 \<in> set blocks_2 \<and>
            compute_block factor block_1 block_2 = Inr new_block)"
proof (induction items arbitrary: acc)
  case Nil
  then show ?case by simp
next
  case (Cons item items)
  obtain key block_1 where item: "item = (key, block_1)" by (cases item) auto
  from Cons.prems obtain ell species_center where key: "key = [ell, species_center]"
    by (auto simp: item split: list.splits)
  from Cons.prems obtain factor blocks_2 acc1 where
    f: "py_factor ell = Inr factor" and
    s: "blocks_selection spherical_expansion_2
          [(''spherical_harmonics_l'', ell), (''species_center'', species_center)] = Inr blocks_2" and
    b: "blocks_2_loop factor [ell, species_center] block_1 blocks_2 acc = Inr acc1" and
    r: "items_loop items spherical_expansion_2 acc1 = Inr acc'"
    by (auto simp: item key bind_Inr_iff)
  from blocks_2_loop_results[OF b] obtain nbs1 where
    n1: "list_all2 (\<lambda>block_2 new_block. compute_block factor block_1 block_2 = Inr new_block)
           blocks_2 nbs1" and a1: "snd acc1 = snd acc @ nbs1"
    by auto
  from Cons.IH[OF r] obtain nbs2 where
    a2: "snd acc' = snd acc1 @ nbs2" and
    n2: "\<forall>new_block \<in> set nbs2.
          \<exists>ell species_center block_1 factor blocks_2 block_2.
            ([ell, species_center], block_1) \<in> set items \<and>
            py_factor ell = Inr factor \<and>
            blocks_selection spherical_expansion_2
              [(''spherical_harmonics_l'', ell), (''species_center'', species_center)] = Inr blocks_2 \<and>
            block_2 \<in> set blocks_2 \<and>
            compute_block factor block_1 block_2 = Inr new_block"
    by blast
  have "\<exists>ell species_center block_1 factor blocks_2 block_2.
            ([ell, species_center], block_1) \<in> set (item # items) \<and>
            py_factor ell = Inr factor \<and>
            blocks_selection spherical_expansion_2
              [(''spherical_harmonics_l'', ell), (''species_center'', species_center)] = Inr blocks_2 \<and>
            block_2 \<in> set blocks_2 \<and>
            compute_block factor block_1 block_2 = Inr new_block"
    if "new_block \<in> set (nbs1 @ nbs2)" for new_block
  proof (cases "new_block \<in> set nbs1")
    case True
    then obtain i where "i < length nbs1" "nbs1 ! i = new_block"
      by (auto simp: in_set_conv_nth)
    with n1 have "blocks_2 ! i \<in> set blocks_2"
      "compute_block factor block_1 (blocks_2 ! i) = Inr new_block"
      by (auto simp: list_all2_conv_all_nth)
    with f s show ?thesis unfolding item key by (meson list.set_intros(1))
  next
    case False
    with that have "new_block \<in> set nbs2" by simp
    with n2 show ?thesis by (meson list.set_intros(2))
  qed
  then show ?case
    using a1 a2 by (intro exI[of _ "nbs1 @ nbs2"]) simp
qed

section \<open>Properties of the combination strategies\<close>

text \<open>
  C10. When \<^verbatim>\<open>arr_1\<close> is a torch tensor, both \<^verbatim>\<open>_sparse_combine\<close> and
  \<^verbatim>\<open>_dense_combine\<close> return \<^verbatim>\<open>None\<close>: no result is computed and no error is
  raised, whatever the other arguments are.
\<close>

theorem torch_branch_returns_None:
  "sparse_combine (TorchTensor t) arr_2 lam sparse_cache return_empty_array = Inr None \<and>
   dense_combine (TorchTensor t) arr_2 lam dense_cache = Inr None"
  by (simp add: sparse_combine_def dense_combine_def)

text \<open>
  C7, as amended. On numpy arrays, when the coefficient dictionary has no entry for
  the inferred triple \<open>(l1, l2, lam)\<close>: \<^verbatim>\<open>_dense_combine\<close> always fails with
  \<open>KeyError\<close>, and \<^verbatim>\<open>_sparse_combine\<close> (with \<^verbatim>\<open>return_empty_array\<close> false) fails
  with \<open>KeyError\<close> when the two sample counts agree and \<open>lam\<close> is not negative.
  The sparse strategy asserts the sample counts and allocates its output before it
  looks the coefficients up: with different sample counts it fails with
  \<open>AssertionError\<close>, and with equal sample counts and a negative \<open>lam\<close> it fails
  with the \<open>ValueError\<close> of \<^verbatim>\<open>np.zeros\<close>, whatever the dictionary holds.
\<close>

theorem missing_coefficients_KeyError:
  "(coeffs dense_cache
      ((int (shape1 a1) - 1) div 2, (int (shape1 arr_2) - 1) div 2, lam) = None
      \<longrightarrow> dense_combine (Ndarray a1) arr_2 lam dense_cache = Inl KeyError) \<and>
   (shape0 a1 = shape0 arr_2 \<and> 0 \<le> lam \<and>
    coeffs sparse_cache
      ((int (shape1 a1) - 1) div 2, (int (shape1 arr_2) - 1) div 2, lam) = None
      \<longrightarrow> sparse_combine (Ndarray a1) arr_2 lam sparse_cache False = Inl KeyError) \<and>
   (shape0 a1 = shape0 arr_2 \<and> lam < 0
      \<longrightarrow> sparse_combine (Ndarray a1) arr_2 lam sparse_cache return_empty_array =
            Inl (ValueError NEGATIVE_DIMENSIONS)) \<and>
   (shape0 a1 \<noteq> shape0 arr_2
      \<longrightarrow> sparse_combine (Ndarray a1) arr_2 lam sparse_cache return_empty_array =
            Inl AssertionError)"
  by (simp add: sparse_combine_def dense_combine_def Let_def)

theorem missing_coefficients_KeyError_witness:
  "dense_combine (Ndarray ex_arr_1) ex_arr_2 1 ex_dense_cache = Inl KeyError \<and>
   dense_combine (Ndarray ex_arr_1) ex_arr_2 (- 1) ex_dense_cache = Inl KeyError \<and>
   sparse_combine (Ndarray ex_arr_1) ex_arr_2 1 ex_sparse_cache False = Inl KeyError \<and>
   sparse_combine (Ndarray ex_arr_1) ex_arr_2 (- 1) ex_sparse_cache True =
     Inl (ValueError NEGATIVE_DIMENSIONS) \<and>
   sparse_combine (Ndarray ex_one_sample) ex_arr_2 1 ex_sparse_cache True = Inl AssertionError"
  using missing_coefficients_KeyError[of ex_dense_cache ex_arr_1 ex_arr_2 1 ex_sparse_cache]
    missing_coefficients_KeyError[of ex_dense_cache ex_arr_1 ex_arr_2 "- 1" ex_sparse_cache True]
    missing_coefficients_KeyError[of ex_dense_cache ex_one_sample ex_arr_2 1 ex_sparse_cache True]
  by (simp add: ex_arr_1_def ex_arr_2_def ex_sparse_cache_def ex_dense_cache_def
      ex_one_sample_def)

text \<open>
  C7 as stated fails: with no coefficients for the triple, \<^verbatim>\<open>_sparse_combine\<close>
  raises \<open>AssertionError\<close>, not \<open>KeyError\<close>, on one sample against two, and the
  \<open>ValueError\<close> of \<^verbatim>\<open>np.zeros\<close> on equal sample counts with \<open>lam = -1\<close>.
\<close>

theorem missing_coefficients_after_assert:
  "coeffs ex_sparse_cache
     ((int (shape1 ex_one_sample) - 1) div 2, (int (shape1 ex_arr_2) - 1) div 2, 1) = None \<and>
   sparse_combine (Ndarray ex_one_sample) ex_arr_2 1 ex_sparse_cache False = Inl AssertionError \<and>
   coeffs ex_sparse_cache
     ((int (shape1 ex_arr_1) - 1) div 2, (int (shape1 ex_arr_2) - 1) div 2, - 1) = None \<and>
   shape0 ex_arr_1 = shape0 ex_arr_2 \<and>
   sparse_combine (Ndarray ex_arr_1) ex_arr_2 (- 1) ex_sparse_cache False =
     Inl (ValueError NEGATIVE_DIMENSIONS)"
  by (simp add: sparse_combine_def ex_one_sample_def ex_arr_1_def ex_arr_2_def ex_sparse_cache_def)

text \<open>
  C6. With one sample in \<^verbatim>\<open>arr_1\<close> and two in \<^verbatim>\<open>arr_2\<close>, \<^verbatim>\<open>_sparse_combine\<close>
  fails its assertion, but \<^verbatim>\<open>_dense_combine\<close> broadcasts the single sample and
  returns an array of two samples.
\<close>

theorem dense_broadcasts_sample_mismatch:
  "shape0 ex_one_sample = 1 \<and> shape0 ex_arr_2 = 2 \<and>
   sparse_combine (Ndarray ex_one_sample) ex_arr_2 0 ex_sparse_cache False = Inl AssertionError \<and>
   dense_combine (Ndarray ex_one_sample) ex_arr_2 0 ex_dense_cache =
     Inr (Some \<lparr>shape0 = 2, shape1 = 1, shape2 = 1, vals = [[[20]], [[28]]]\<rparr>)"
  by (simp add: sparse_combine_def dense_combine_def ex_one_sample_def ex_arr_2_def
      ex_sparse_cache_def ex_dense_cache_def ex_dense_coeffs_def broadcast_dim_def outer5_def
      swapaxes_1_4_def bidx_def reshape_unknown_3_def reshape_unknown_2_def matmul_3_2_def
      matmul2_def swapaxes_1_2_def dot_def upt_conv_Cons numeral_2_eq_2)

text \<open>
  C1. The two strategies are to return equal arrays whenever the coefficient
  source has an entry for \<open>(l1, l2, lam)\<close>. For \<^verbatim>\<open>arr_1\<close> of shape \<open>(2, 1, 0)\<close>,
  \<^verbatim>\<open>arr_2\<close> of shape \<open>(2, 1, 1)\<close>, \<open>lam = 0\<close> and consistent sparse and dense
  coefficients for \<open>(0, 0, 0)\<close> they do not: \<^verbatim>\<open>_sparse_combine\<close> returns the
  array of shape \<open>(2, 1, 0)\<close>, while in \<^verbatim>\<open>_dense_combine\<close> the call
  \<^verbatim>\<open>reshape(-1, 0, 1)\<close> raises \<open>ValueError\<close>, because numpy cannot infer the
  unknown dimension when the known ones multiply to zero.
\<close>

theorem sparse_dense_empty_properties:
  "wf3 ex_no_props \<and> wf3 ex_arr_2 \<and> shape0 ex_no_props = shape0 ex_arr_2 \<and>
   shape1 ex_no_props = 2 * 0 + 1 \<and> shape1 ex_arr_2 = 2 * 0 + 1 \<and>
   coeffs ex_sparse_cache (0, 0, 0) = Some ex_sparse_coeffs \<and>
   coeffs ex_dense_cache (0, 0, 0) = Some ex_dense_coeffs \<and>
   cg_consistent ex_sparse_coeffs ex_dense_coeffs \<and>
   sparse_combine (Ndarray ex_no_props) ex_arr_2 0 ex_sparse_cache False =
     Inr (Some \<lparr>shape0 = 2, shape1 = 1, shape2 = 0, vals = [[[]], [[]]]\<rparr>) \<and>
   dense_combine (Ndarray ex_no_props) ex_arr_2 0 ex_dense_cache = Inl (ValueError RESHAPE_ERROR)"
  using ex_consistent
  by (simp add: sparse_combine_def dense_combine_def ex_no_props_def ex_arr_2_def
      ex_sparse_cache_def ex_dense_cache_def ex_sparse_coeffs_def ex_dense_coeffs_def
      zeros3_def sparse_accumulate_def np_index_def outer_flat_def wf3_def
      reshape_unknown_3_def upt_conv_Cons numeral_2_eq_2)

text \<open>
  C5. Both strategies are to return an array of shape
  \<open>(n_samples, 2 lam + 1, n_props_1 * n_props_2)\<close> for valid inputs. For \<^verbatim>\<open>arr_1\<close>
  of shape \<open>(2, 1, 2)\<close>, \<^verbatim>\<open>arr_2\<close> of shape \<open>(2, 1, 0)\<close>, \<open>lam = 0\<close> and dense
  coefficients of shape \<open>(1, 1, 1)\<close>, \<^verbatim>\<open>_sparse_combine\<close> in its empty mode
  returns the array of shape \<open>(2, 1, 0)\<close>, but \<^verbatim>\<open>_dense_combine\<close> returns no
  array: its \<^verbatim>\<open>reshape(-1, 0, 1)\<close> raises \<open>ValueError\<close>.
\<close>

theorem dense_no_output_on_empty_properties:
  "wf3 ex_arr_1 \<and> wf3 ex_no_props \<and> shape0 ex_arr_1 = shape0 ex_no_props \<and>
   shape1 ex_arr_1 = 2 * 0 + 1 \<and> shape1 ex_no_props = 2 * 0 + 1 \<and>
   coeffs ex_dense_cache (0, 0, 0) = Some ex_dense_coeffs \<and>
   has_shape ex_dense_coeffs (2 * 0 + 1) (2 * 0 + 1) (2 * 0 + 1) \<and>
   sparse_combine (Ndarray ex_arr_1) ex_no_props 0 ex_sparse_cache True =
     Inr (Some \<lparr>shape0 = 2, shape1 = 1, shape2 = 0, vals = [[[]], [[]]]\<rparr>) \<and>
   dense_combine (Ndarray ex_arr_1) ex_no_props 0 ex_dense_cache = Inl (ValueError RESHAPE_ERROR)"
  by (simp add: sparse_combine_def dense_combine_def ex_no_props_def ex_arr_1_def ex_dense_cache_def
      ex_dense_coeffs_def wf3_def has_shape_def reshape_unknown_3_def zeros3_def
      numeral_2_eq_2)

section \<open>Properties of the power spectrum\<close>

text \<open>
  C8. Constructing a \<^verbatim>\<open>PowerSpectrum\<close> from two calculators whose \<^verbatim>\<open>max_angular\<close>
  parameters differ fails in \<^verbatim>\<open>__init__\<close> with a \<open>ValueError\<close>, so that no object
  exists on which \<^verbatim>\<open>compute\<close> could be called; for two supported calculators it is
  the \<open>ValueError\<close> that names \<^verbatim>\<open>max_angular\<close>. The method \<^verbatim>\<open>compute\<close> does not
  read the parameters: on an object holding the two calculators it behaves as on
  the object with any other parameters in their place.
\<close>

theorem init_rejects_max_angular_mismatch:
  assumes "parameters c1 ''max_angular'' = Some max_angular_1"
    and "parameters c2 ''max_angular'' = Some max_angular_2"
    and "max_angular_1 \<noteq> max_angular_2"
  shows "(\<exists>msg. init c1 (Some c2) = Inl (ValueError msg)) \<and>
         (c_name c1 \<in> set supported_calculators \<and> c_name c2 \<in> set supported_calculators
            \<longrightarrow> init c1 (Some c2) = Inl (ValueError MAX_ANGULAR_MISMATCH)) \<and>
         (\<forall>ps1 ps2 lib systems gradients' use_native_system.
            compute \<lparr>calculator_1 = c1, calculator_2 = Some c2\<rparr>
              lib systems gradients' use_native_system =
            compute \<lparr>calculator_1 = c1\<lparr>parameters := ps1\<rparr>,
                     calculator_2 = Some (c2\<lparr>parameters := ps2\<rparr>)\<rparr>
              lib systems gradients' use_native_system)"
  using assms by (auto simp: init_def compute_def)

theorem init_rejects_max_angular_mismatch_witness:
  "init (ex_calculator ''spherical_expansion'' 2) (Some (ex_calculator ''lode_spherical_expansion'' 3))
     = Inl (ValueError MAX_ANGULAR_MISMATCH)"
  using init_rejects_max_angular_mismatch[of "ex_calculator ''spherical_expansion'' 2" 2
      "ex_calculator ''lode_spherical_expansion'' 3" 3]
  by (simp add: ex_calculator_def supported_calculators_def)

text \<open>
  C4. For two well-formed blocks and \<open>factor = 1 / sqrt (2 l + 1)\<close>, whenever the
  loop body yields the new block, its values have one row per sample and
  \<open>P * Q\<close> columns, and entry \<open>(i, p * Q + q)\<close> is
  \<open>1 / sqrt (2 l + 1)\<close> times the sum over \<open>m\<close> of
  \<open>arr_1[i, m, p] * arr_2[i, m, q]\<close>. The new block is yielded for every pair of
  gradient-free blocks with equal samples, at least one sample, and equal
  component axes.
\<close>

theorem invariant_block_values:
  assumes "wf_block block_1" "wf_block block_2"
    and "py_factor ell = Inr factor"
  shows "(\<forall>new_block. compute_block factor block_1 block_2 = Inr new_block \<longrightarrow>
            wf2 (values' new_block) \<and>
            nrows (values' new_block) = len (samples block_1) \<and>
            ncols (values' new_block) = len (properties block_1) * len (properties block_2) \<and>
            (\<forall>i<len (samples block_1). \<forall>p<len (properties block_1). \<forall>q<len (properties block_2).
               vals2 (values' new_block) ! i ! (p * len (properties block_2) + q) =
                 (1 / sqrt (real_of_int (2 * ell + 1))) *
                 (\<Sum>m<shape1 (values' block_1).
                    vals (values' block_1) ! i ! m ! p * vals (values' block_2) ! i ! m ! q))) \<and>
         (samples block_1 = samples block_2 \<and> 0 < len (samples block_1) \<and>
          shape1 (values' block_2) = shape1 (values' block_1) \<and> gradients block_1 = []
            \<longrightarrow> (\<exists>new_block. compute_block factor block_1 block_2 = Inr new_block))"
proof (intro conjI allI impI)
  fix new_block
  assume c: "compute_block factor block_1 block_2 = Inr new_block"
  note v = compute_block_values(3)[OF assms(1,2) c]
  show "wf2 (values' new_block)"
    by (simp add: v wf2_def list_all_iff)
  show "nrows (values' new_block) = len (samples block_1)"
    by (simp add: v)
  show "ncols (values' new_block) = len (properties block_1) * len (properties block_2)"
    by (simp add: v)
  fix i p q
  assume "i < len (samples block_1)" "p < len (properties block_1)" "q < len (properties block_2)"
  then show "vals2 (values' new_block) ! i ! (p * len (properties block_2) + q) =
                 (1 / sqrt (real_of_int (2 * ell + 1))) *
                 (\<Sum>m<shape1 (values' block_1).
                    vals (values' block_1) ! i ! m ! p * vals (values' block_2) ! i ! m ! q)"
    using py_factor_Inr[OF assms(3)] by (simp add: v flat2_nth invariant_entry_def)
next
  assume "samples block_1 = samples block_2 \<and> 0 < len (samples block_1) \<and>
          shape1 (values' block_2) = shape1 (values' block_1) \<and> gradients block_1 = []"
  then show "\<exists>new_block. compute_block factor block_1 block_2 = Inr new_block"
    using compute_block_returns[OF assms(1,2)] by blast
qed

theorem invariant_block_values_witness:
  "compute_block 1 ex_block_1 ex_block_2 = Inr ex_new_block \<and>
   vals2 (values' ex_new_block) ! 1 ! (1 * len (properties ex_block_2) + 0) =
     (1 / sqrt (real_of_int (2 * 0 + 1))) *
     (\<Sum>m<shape1 (values' ex_block_1).
        vals (values' ex_block_1) ! 1 ! m ! 1 * vals (values' ex_block_2) ! 1 ! m ! 0) \<and>
   vals2 (values' ex_new_block) ! 1 ! 1 = 28 \<and>
   (\<exists>new_block. compute_block 1 ex_block_1 ex_block_2 = Inr new_block)"
proof -
  have f: "py_factor 0 = Inr 1" by (simp add: py_factor_def)
  note t = invariant_block_values[OF ex_wf_blocks f]
  have "1 < len (samples ex_block_1)" "1 < len (properties ex_block_1)"
       "0 < len (properties ex_block_2)"
    by (simp_all add: ex_block_1_def ex_block_2_def ex_samples_def len_def)
  with t ex_compute_block
  have "vals2 (values' ex_new_block) ! 1 ! (1 * len (properties ex_block_2) + 0) =
     (1 / sqrt (real_of_int (2 * 0 + 1))) *
     (\<Sum>m<shape1 (values' ex_block_1).
        vals (values' ex_block_1) ! 1 ! m ! 1 * vals (values' ex_block_2) ! 1 ! m ! 0)"
    by blast
  moreover have "vals2 (values' ex_new_block) ! 1 ! 1 = 28"
    by (simp add: ex_new_block_def)
  moreover have "samples ex_block_1 = samples ex_block_2 \<and> 0 < len (samples ex_block_1) \<and>
      shape1 (values' ex_block_2) = shape1 (values' ex_block_1) \<and> gradients ex_block_1 = []"
    by (simp add: ex_block_1_def ex_block_2_def ex_samples_def len_def ex_arr_1_def ex_arr_2_def)
  with t have "\<exists>new_block. compute_block 1 ex_block_1 ex_block_2 = Inr new_block"
    by blast
  ultimately show ?thesis using ex_compute_block by simp
qed

text \<open>
  C9. Whenever the loop body yields the new block, its property labels are named
  \<open>species_neighbor_1, n1, species_neighbor_2, n2\<close> and their rows are the
  concatenations of a property row of \<^verbatim>\<open>block_1\<close> with a property row of
  \<^verbatim>\<open>block_2\<close>, \<^verbatim>\<open>block_1\<close> outermost: row \<open>i * Q + j\<close> is row \<open>i\<close> of the first
  followed by row \<open>j\<close> of the second.
\<close>

theorem output_properties_cartesian_product:
  assumes "compute_block factor block_1 block_2 = Inr new_block"
  shows "names (properties new_block) =
           [''species_neighbor_1'', ''n1'', ''species_neighbor_2'', ''n2''] \<and>
         rows (properties new_block) =
           [properties_1 @ properties_2.
              properties_1 \<leftarrow> rows (properties block_1),
              properties_2 \<leftarrow> rows (properties block_2)] \<and>
         len (properties new_block) = len (properties block_1) * len (properties block_2) \<and>
         (\<forall>i<len (properties block_1). \<forall>j<len (properties block_2).
            rows (properties new_block) ! (i * len (properties block_2) + j) =
              rows (properties block_1) ! i @ rows (properties block_2) ! j)"
proof -
  have p: "properties new_block = block_properties (properties block_1) (properties block_2)"
    using compute_block_fields(4)[OF assms] .
  have "rows (properties new_block) ! (i * len (properties block_2) + j) =
              rows (properties block_1) ! i @ rows (properties block_2) ! j"
    if "i < len (properties block_1)" "j < len (properties block_2)" for i j
    using that by (simp add: p block_properties_flat2 flat2_nth)
  then show ?thesis
    by (simp add: p) (simp add: block_properties_def)
qed

theorem output_properties_cartesian_product_witness:
  "compute_block 1 ex_block_1 ex_block_2 = Inr ex_new_block \<and>
   rows (properties ex_new_block) = [[1, 0, 8, 0], [1, 1, 8, 0]] \<and>
   rows (properties ex_new_block) ! (1 * len (properties ex_block_2) + 0) =
     rows (properties ex_block_1) ! 1 @ rows (properties ex_block_2) ! 0"
proof -
  have "1 < len (properties ex_block_1)" "0 < len (properties ex_block_2)"
    by (simp_all add: ex_block_1_def ex_block_2_def len_def)
  with output_properties_cartesian_product[OF ex_compute_block]
  have "rows (properties ex_new_block) ! (1 * len (properties ex_block_2) + 0) =
     rows (properties ex_block_1) ! 1 @ rows (properties ex_block_2) ! 0"
    by blast
  then show ?thesis using ex_compute_block by (simp add: ex_new_block_def)
qed

text \<open>
  C2. For two well-formed blocks with equal samples and equal component axes,
  both carrying a well-formed \<^verbatim>\<open>positions\<close> gradient with at least one sample,
  the loop body yields the new block, and the \<^verbatim>\<open>positions\<close> gradient attached
  to it has the union of the two gradient sample sets as samples, the first
  component label set of \<^verbatim>\<open>gradient_1\<close> as components, the properties of the
  new block, and as values the product rule: a zero array over the union to which
  \<open>factor * d(arr_1)/dx . arr_2\<close> and \<open>factor * arr_1 . d(arr_2)/dx\<close> are added at
  the rows given by the two back-mapping index arrays.
\<close>

theorem positions_gradient_product_rule:
  assumes "wf_block block_1" "wf_block block_2"
    and "samples block_1 = samples block_2"
    and "shape1 (values' block_2) = shape1 (values' block_1)"
    and "distinct (gradients_list block_1)"
    and "gradient block_1 ''positions'' = Inr gradient_1"
    and "gradient block_2 ''positions'' = Inr gradient_2"
    and "wf_gradient gradient_1 block_1" "wf_gradient gradient_2 block_2"
    and "0 < len (samples gradient_1)" "0 < len (samples gradient_2)"
  shows "\<exists>new_block.
           compute_block factor block_1 block_2 = Inr new_block \<and>
           gradient new_block ''positions'' =
             Inr \<lparr>values' = product_rule_gradient factor block_1 block_2 gradient_1 gradient_2,
                  samples = fst (union_and_mapping (samples gradient_1) (samples gradient_2)),
                  components = [hd (components gradient_1)],
                  properties = properties new_block\<rparr>"
proof -
  let ?v1 = "values' block_1" and ?v2 = "values' block_2" and ?n = "len (samples block_1)"
  have wf3: "wf3 ?v1" "wf3 ?v2" and sh: "shape0 ?v1 = ?n" "shape0 ?v2 = ?n"
    and pq: "shape2 ?v1 = len (properties block_1)" "shape2 ?v2 = len (properties block_2)"
    using assms(1,2,3) by (simp_all add: wf_block_def)
  have n: "0 < ?n"
  proof -
    from assms(10) obtain r where "r \<in> set (rows (samples gradient_1))"
      by (cases "rows (samples gradient_1)") (auto simp: len_def)
    with assms(8) have "0 < int (shape0 ?v1)"
      by (auto simp: wf_gradient_def list_all_iff)
    then show ?thesis using sh by simp
  qed
  obtain product where m: "matmul_3_3 (swapaxes_1_2 ?v1) ?v2 = Inr product"
    using matmul_swapped_3_3[OF wf3 sh assms(4)] by blast
  note r = block_values[OF wf3 sh assms(4) n m, of factor]
  let ?nb = "\<lparr>values' = \<lparr>nrows = ?n, ncols = shape2 ?v1 * shape2 ?v2,
                vals2 = map (\<lambda>i. flat2 (invariant_entry factor ?v1 ?v2 i) (shape2 ?v1) (shape2 ?v2)) [0..<?n]\<rparr>,
              samples = samples block_1, components = [],
              properties = block_properties (properties block_1) (properties block_2),
              gradients = []\<rparr> :: invariant_block"
  let ?g = "\<lparr>values' = product_rule_gradient factor block_1 block_2 gradient_1 gradient_2,
             samples = fst (union_and_mapping (samples gradient_1) (samples gradient_2)),
             components = [hd (components gradient_1)],
             properties = properties ?nb\<rparr>"
  have pg: "positions_gradients ?nb block_1 block_2 factor =
              Inr (?nb\<lparr>gradients := gradients ?nb @ [(''positions'', ?g)]\<rparr>)"
    using assms sh
    by (intro positions_gradients_product_rule) (simp_all add: pq gradients_list_def)
  have nb: "without_gradients
              \<lparr>values' = \<lparr>nrows = ?n, ncols = shape2 ?v1 * shape2 ?v2,
                 vals2 = map (\<lambda>i. flat2 (invariant_entry factor ?v1 ?v2 i) (shape2 ?v1) (shape2 ?v2)) [0..<?n]\<rparr>,
               samples = samples block_1, components = [],
               properties = block_properties (properties block_1) (properties block_2)\<rparr> = ?nb"
    by (simp add: without_gradients_def)
  have same: "(samples block_1 \<noteq> samples block_2) = False"
    using assms(3) by simp
  have "compute_block factor block_1 block_2 = Inr (?nb\<lparr>gradients := [(''positions'', ?g)]\<rparr>)"
    using gradient_Inr_member[OF assms(6)] pg
    by (simp add: compute_block_def bind_def same m r new_block_constructed[OF assms(1,2)] nb
        gradients_loop_positions[OF assms(5)])
  moreover have "gradient (?nb\<lparr>gradients := [(''positions'', ?g)]\<rparr>) ''positions'' =
      Inr \<lparr>values' = product_rule_gradient factor block_1 block_2 gradient_1 gradient_2,
                  samples = fst (union_and_mapping (samples gradient_1) (samples gradient_2)),
                  components = [hd (components gradient_1)],
                  properties = properties (?nb\<lparr>gradients := [(''positions'', ?g)]\<rparr>)\<rparr>"
    by (simp add: gradient_def)
  ultimately show ?thesis by blast
qed

theorem positions_gradient_product_rule_witness:
  "compute_block 1 ex_block_1g ex_block_2g =
     Inr (ex_new_block\<lparr>gradients := [(''positions'', ex_out_gradient)]\<rparr>) \<and>
   product_rule_gradient 1 ex_block_1g ex_block_2g ex_gradient_1 ex_gradient_2 =
     values' ex_out_gradient \<and>
   vals (values' ex_out_gradient) ! 0 ! 1 ! (1 * 1 + 0) = 9"
proof -
  have "\<exists>new_block.
           compute_block 1 ex_block_1g ex_block_2g = Inr new_block \<and>
           gradient new_block ''positions'' =
             Inr \<lparr>values' = product_rule_gradient 1 ex_block_1g ex_block_2g ex_gradient_1 ex_gradient_2,
                  samples = fst (union_and_mapping (samples ex_gradient_1) (samples ex_gradient_2)),
                  components = [hd (components ex_gradient_1)],
                  properties = properties new_block\<rparr>"
    by (rule positions_gradient_product_rule[OF ex_wf_gradients(1,2) _ _ _ _ _ ex_wf_gradients(3,4)])
       (simp_all add: ex_block_1g_def ex_block_2g_def ex_block_1_def ex_block_2_def ex_arr_1_def
          ex_arr_2_def gradients_list_def gradient_def ex_gradient_1_def ex_gradient_2_def len_def)
  then have "gradient (ex_new_block\<lparr>gradients := [(''positions'', ex_out_gradient)]\<rparr>) ''positions'' =
             Inr \<lparr>values' = product_rule_gradient 1 ex_block_1g ex_block_2g ex_gradient_1 ex_gradient_2,
                  samples = fst (union_and_mapping (samples ex_gradient_1) (samples ex_gradient_2)),
                  components = [hd (components ex_gradient_1)],
                  properties = properties (ex_new_block\<lparr>gradients := [(''positions'', ex_out_gradient)]\<rparr>)\<rparr>"
    using ex_compute_block_g by auto
  then have "ex_out_gradient =
             \<lparr>values' = product_rule_gradient 1 ex_block_1g ex_block_2g ex_gradient_1 ex_gradient_2,
                  samples = fst (union_and_mapping (samples ex_gradient_1) (samples ex_gradient_2)),
                  components = [hd (components ex_gradient_1)],
                  properties = properties ex_new_block\<rparr>"
    by (simp add: gradient_def)
  from arg_cong[OF this, of values']
  have "product_rule_gradient 1 ex_block_1g ex_block_2g ex_gradient_1 ex_gradient_2 =
     values' ex_out_gradient"
    by simp
  moreover have "vals (values' ex_out_gradient) ! 0 ! 1 ! (1 * 1 + 0) = 9"
    by (simp add: ex_out_gradient_def)
  ultimately show ?thesis using ex_compute_block_g by simp
qed

text \<open>
  C3. When exactly one of the two \<^verbatim>\<open>positions\<close> gradients has zero samples, the
  term of the other side is to be accumulated over the samples of that side. For
  well-formed blocks where \<^verbatim>\<open>gradient_1\<close> has no samples and \<^verbatim>\<open>gradient_2\<close> has
  two, \<^verbatim>\<open>_positions_gradients\<close> does not do so: the guard
  \<^verbatim>\<open>len(gradient_1.samples) == 0 or len(gradient_2.samples) == 0\<close> holds, so that
  no term is accumulated and the function is left with empty gradient samples and
  an array of shape \<open>(0, 1, 2)\<close>; the direction component of \<^verbatim>\<open>gradient_1\<close> has
  three rows, the constructor \<^verbatim>\<open>TensorBlock\<close> rejects the array, and the loop body
  fails where a gradient over the two samples of \<^verbatim>\<open>gradient_2\<close> is expected.
\<close>

theorem empty_gradient_side_fails:
  "wf_block ex_block_1n \<and> wf_block ex_block_2g \<and>
   gradient ex_block_1n ''positions'' = Inr ex_gradient_none \<and>
   gradient ex_block_2g ''positions'' = Inr ex_gradient_2 \<and>
   wf_gradient ex_gradient_none ex_block_1n \<and> wf_gradient ex_gradient_2 ex_block_2g \<and>
   len (samples ex_gradient_none) = 0 \<and> len (samples ex_gradient_2) = 2 \<and>
   len (hd (components ex_gradient_none)) = 3 \<and>
   gradient_samples_and_values ex_new_block ex_block_1n ex_block_2g
       ex_gradient_none ex_gradient_2 1 =
     Inr (Labels_empty [''sample'', ''structure'', ''atom''],
          \<lparr>shape0 = 0, shape1 = 1, shape2 = 2, vals = []\<rparr>) \<and>
   positions_gradients ex_new_block ex_block_1n ex_block_2g 1 =
     Inl (EquistoreError SHAPE_MISMATCH) \<and>
   compute_block 1 ex_block_1n ex_block_2g = Inl (EquistoreError SHAPE_MISMATCH)"
  by (intro conjI; code_simp)

end
